theory Spec2Isabelle
  imports Complex_Main
begin

section \<open>Python values used by the notebooks\<close>

text \<open>
  Python ints are unbounded integers. An exception is a value: every fallible operation
  returns \<open>exn + 'a\<close>, with \<open>Inl\<close> the raised exception; \<open>OtherException\<close> stands for
  the classes that only libraries raise.
\<close>

datatype exn =
    ZeroDivisionError | IndexError | OverflowError | ValueError
  | RuntimeError string | OtherException string

text \<open>
  A Python float is an IEEE 754 binary64 number: a finite real, an infinity or a
  not-a-number. \<open>round_to_double\<close> is the rounding that every arithmetic operation applies
  to its exact result: to the nearest number with 53 significant bits (or the nearest
  multiple of \<open>pow2 (- 1074)\<close> below \<open>pow2 (- 1022)\<close>), ties to the even one, and to an
  infinity from \<open>2 ^ 1024\<close> on.
\<close>

datatype double = Finite real | PlusInf | MinusInf | NaN

definition pow2 :: "int \<Rightarrow> real" where
  "pow2 k = (if 0 \<le> k then 2 ^ nat k else 1 / 2 ^ nat (- k))"

definition round_half_even :: "real \<Rightarrow> int" where
  "round_half_even y =
     (let f = \<lfloor>y\<rfloor>; d = y - of_int f
      in if d < 1 / 2 then f else if 1 / 2 < d then f + 1 else if even f then f else f + 1)"

definition round_to_double :: "real \<Rightarrow> double" where
  "round_to_double x =
     (if x = 0 then Finite 0
      else
        let e = max \<lfloor>log 2 \<bar>x\<bar>\<rfloor> (- 1022);
            u = pow2 (e - 52);
            r = of_int (round_half_even (x / u)) * u
        in if 2 ^ 1024 \<le> \<bar>r\<bar> then (if 0 < x then PlusInf else MinusInf) else Finite r)"

text \<open>
  The float operations of the resampling cell, on the operands it gives them:
  \<open>a / b\<close> of two finite floats, the conversion of an int that \<open>float * int\<close> starts
  with, the product of a float and a finite float, and \<open>int(a)\<close>, which truncates
  toward zero.
\<close>

definition float_div :: "real \<Rightarrow> real \<Rightarrow> exn + double" where
  "float_div a b = (if b = 0 then Inl ZeroDivisionError else Inr (round_to_double (a / b)))"

definition int_to_float :: "int \<Rightarrow> exn + real" where
  "int_to_float n =
     (case round_to_double (of_int n) of Finite f \<Rightarrow> Inr f | _ \<Rightarrow> Inl OverflowError)"

definition float_mul :: "double \<Rightarrow> real \<Rightarrow> double" where
  "float_mul a f =
     (case a of
        Finite q \<Rightarrow> round_to_double (q * f)
      | PlusInf \<Rightarrow> (if 0 < f then PlusInf else if f < 0 then MinusInf else NaN)
      | MinusInf \<Rightarrow> (if 0 < f then MinusInf else if f < 0 then PlusInf else NaN)
      | NaN \<Rightarrow> NaN)"

definition py_int :: "double \<Rightarrow> exn + int" where
  "py_int a =
     (case a of
        Finite x \<Rightarrow> Inr (if 0 \<le> x then \<lfloor>x\<rfloor> else \<lceil>x\<rceil>)
      | PlusInf \<Rightarrow> Inl OverflowError
      | MinusInf \<Rightarrow> Inl OverflowError
      | NaN \<Rightarrow> Inl ValueError)"

section \<open>20\_Expand\_With\_Interpolators: the Marschner-Lobb image\<close>

text \<open>
  An image is kept as its pixel buffer in raster order (first index fastest).
  \<open>grid_indices [n0, n1, n2]\<close> enumerates the indices of an image of that size.
\<close>

fun grid_indices :: "nat list \<Rightarrow> nat list list" where
  "grid_indices [] = [[]]"
| "grid_indices (n # ns) = concat (map (\<lambda>rest. map (\<lambda>i. i # rest) [0..<n]) (grid_indices ns))"

text \<open>
  \<open>sitk.PhysicalPointSource(pixel type, size, origin, spacing)\<close>: the vector image whose
  pixel at an index is the physical location of that index (identity direction).
\<close>

definition PhysicalPointSource :: "nat list \<Rightarrow> real list \<Rightarrow> real list \<Rightarrow> real list list" where
  "PhysicalPointSource sz origin spacing =
     map (\<lambda>idx. map (\<lambda>(i, o_d, s_d). o_d + real i * s_d) (zip idx (zip origin spacing)))
         (grid_indices sz)"

text \<open>\<open>sitk.VectorIndexSelectionCast(img, c)\<close>: component \<open>c\<close> of every pixel.\<close>

definition VectorIndexSelectionCast :: "real list list \<Rightarrow> nat \<Rightarrow> real list" where
  "VectorIndexSelectionCast img c = map (\<lambda>p. p ! c) img"

text \<open>Pixel-wise operators of the image class.\<close>

definition img_add :: "real list \<Rightarrow> real list \<Rightarrow> real list" where
  "img_add a b = map (\<lambda>(x, y). x + y) (zip a b)"

definition img_pow2 :: "real list \<Rightarrow> real list" where
  "img_pow2 a = map (\<lambda>x. x ^ 2) a"

definition marschner_lobb :: "nat \<Rightarrow> real \<Rightarrow> real \<Rightarrow> exn + real list" where
  "marschner_lobb sz alpha f_M =
     (if sz = 0 then Inl ZeroDivisionError
      else
        let img = PhysicalPointSource (replicate 3 sz) (replicate 3 (- 1))
                    (replicate 3 (2 / real sz));
            imgx = VectorIndexSelectionCast img 0;
            imgy = VectorIndexSelectionCast img 1;
            imgz = VectorIndexSelectionCast img 2;
            r = map sqrt (img_add (img_pow2 imgx) (img_pow2 imgy));
            pr = map cos (map (\<lambda>v. (2 * pi * f_M) * v) (map cos (map (\<lambda>v. (pi / 2) * v) r)))
        in Inr (map (\<lambda>v. v / (2 * (1 + alpha)))
                 (img_add (map (\<lambda>v. 1 - v) (map sin (map (\<lambda>v. (pi / 2) * v) imgz)))
                          (map (\<lambda>v. alpha * v) (map (\<lambda>v. 1 + v) pr)))))"

text \<open>
  The interpolator constants of the toolkit that the notebooks use, and the calls
  \<open>myshow(sitk.Expand(ml, [5] * 3, interpolator), title=...)\<close> of the demonstration cell,
  in source order.
\<close>

datatype interpolator =
    sitkNearestNeighbor | sitkLinear | sitkBSpline | sitkGaussian
  | sitkHammingWindowedSinc | sitkBlackmanWindowedSinc | sitkCosineWindowedSinc
  | sitkWelchWindowedSinc | sitkLanczosWindowedSinc

definition expand_demonstration :: "(interpolator \<times> string) list" where
  "expand_demonstration =
     [(sitkNearestNeighbor, ''nearest neighbor''),
      (sitkLinear, ''linear''),
      (sitkBSpline, ''b-spline''),
      (sitkGaussian, ''Gaussian''),
      (sitkHammingWindowedSinc, ''Hamming windowed sinc''),
      (sitkBlackmanWindowedSinc, ''Blackman windowed sinc''),
      (sitkCosineWindowedSinc, ''Cosine windowed sinc''),
      (sitkWelchWindowedSinc, ''Welch windowed sinc''),
      (sitkLanczosWindowedSinc, ''Lanczos windowed sinc'')]"

text \<open>
  The glossary's reading of "interpolator", following the spec's words: nearest-neighbor,
  linear, B-spline, or a windowed-sinc variant.
\<close>

fun spec_named_interpolator :: "interpolator \<Rightarrow> bool" where
  "spec_named_interpolator sitkNearestNeighbor = True"
| "spec_named_interpolator sitkLinear = True"
| "spec_named_interpolator sitkBSpline = True"
| "spec_named_interpolator sitkGaussian = False"
| "spec_named_interpolator sitkHammingWindowedSinc = True"
| "spec_named_interpolator sitkBlackmanWindowedSinc = True"
| "spec_named_interpolator sitkCosineWindowedSinc = True"
| "spec_named_interpolator sitkWelchWindowedSinc = True"
| "spec_named_interpolator sitkLanczosWindowedSinc = True"

section \<open>64\_Registration\_Memory\_Time\_Tradeoff: objects of the toolkit\<close>

type_synonym point = "real list"

datatype pixel_id = sitkUInt8 | sitkInt16 | sitkFloat32 | sitkFloat64 | sitkVectorFloat32

text \<open>
  An image object: the geometry the notebook reads and sets (\<open>GetSize\<close>, \<open>GetSpacing\<close>,
  \<open>SetSpacing\<close>, ...), its pixel type and its pixel buffer. Spacing, origin and
  direction are lists of finite floats.
\<close>

record image =
  img_size :: "int list"
  img_spacing :: "real list"
  img_origin :: "real list"
  img_direction :: "real list"
  img_pixel_id :: pixel_id
  img_pixels :: "real list"

definition GetDimension :: "image \<Rightarrow> nat" where
  "GetDimension img = length (img_size img)"

definition identity_direction :: "nat \<Rightarrow> real list" where
  "identity_direction n = concat (map (\<lambda>i. map (\<lambda>j. if i = j then 1 else 0) [0..<n]) [0..<n])"

text \<open>
  The image that \<open>sitk.Image(size, pixel id)\<close> constructs when it does not raise: zero
  pixels, unit spacing, zero origin, identity direction.
\<close>

definition blank_image :: "int list \<Rightarrow> pixel_id \<Rightarrow> image" where
  "blank_image sz pid =
     \<lparr>img_size = sz, img_spacing = replicate (length sz) 1, img_origin = replicate (length sz) 0,
      img_direction = identity_direction (length sz), img_pixel_id = pid,
      img_pixels = replicate (nat (prod_list sz)) 0\<rparr>"

text \<open>A transform object: matrix (row major), translation and centre of rotation.\<close>

record transform =
  tf_matrix :: "real list"
  tf_translation :: "real list"
  tf_center :: "real list"

definition Transform :: transform where
  "Transform = \<lparr>tf_matrix = [], tf_translation = [], tf_center = []\<rparr>"

definition Euler3DTransform :: transform where
  "Euler3DTransform =
     \<lparr>tf_matrix = identity_direction 3, tf_translation = [0, 0, 0], tf_center = [0, 0, 0]\<rparr>"

text \<open>
  The resample filter object. Its setters only store their arguments, which the toolkit
  checks when the filter is executed. \<open>SetReferenceImage\<close> takes the output grid from an
  image; the pixel type of the output is the one of the filter's input.
\<close>

record resample_filter =
  rs_size :: "int list"
  rs_spacing :: "real list"
  rs_origin :: "real list"
  rs_direction :: "real list"
  rs_interpolator :: interpolator
  rs_transform :: transform

definition ResampleImageFilter :: resample_filter where
  "ResampleImageFilter =
     \<lparr>rs_size = [0, 0, 0], rs_spacing = [1, 1, 1], rs_origin = [0, 0, 0],
      rs_direction = identity_direction 3, rs_interpolator = sitkLinear, rs_transform = Transform\<rparr>"

definition SetReferenceImage :: "image \<Rightarrow> resample_filter \<Rightarrow> resample_filter" where
  "SetReferenceImage img f =
     f\<lparr>rs_size := img_size img, rs_spacing := img_spacing img, rs_origin := img_origin img,
       rs_direction := img_direction img\<rparr>"

text \<open>
  The registration method object. Its setters, too, only store their arguments: the
  toolkit builds and checks the registration when the method is executed.
\<close>

datatype metric = MattesMutualInformation nat
datatype sampling_strategy = NONE | REGULAR | RANDOM
datatype optimizer = GradientDescent real nat
datatype scales = NoScales | PhysicalShift
datatype initializer_mode = GEOMETRY | MOMENTS

type_synonym ref = nat

record registration_method =
  rm_metric :: "metric option"
  rm_sampling_strategy :: sampling_strategy
  rm_sampling_percentage :: real
  rm_interpolator :: interpolator
  rm_optimizer :: "optimizer option"
  rm_scales :: scales
  rm_initial_transform :: "ref option"
  rm_stop_condition :: string

definition ImageRegistrationMethod :: registration_method where
  "ImageRegistrationMethod =
     \<lparr>rm_metric = None, rm_sampling_strategy = NONE, rm_sampling_percentage = 1,
      rm_interpolator = sitkLinear, rm_optimizer = None, rm_scales = NoScales,
      rm_initial_transform = None, rm_stop_condition = []\<rparr>"

definition SetMetricAsMattesMutualInformation :: "nat \<Rightarrow> registration_method \<Rightarrow> registration_method" where
  "SetMetricAsMattesMutualInformation numberOfHistogramBins rm =
     rm\<lparr>rm_metric := Some (MattesMutualInformation numberOfHistogramBins)\<rparr>"

definition SetMetricSamplingStrategy :: "sampling_strategy \<Rightarrow> registration_method \<Rightarrow> registration_method" where
  "SetMetricSamplingStrategy s rm = rm\<lparr>rm_sampling_strategy := s\<rparr>"

definition SetMetricSamplingPercentage :: "real \<Rightarrow> registration_method \<Rightarrow> registration_method" where
  "SetMetricSamplingPercentage p rm = rm\<lparr>rm_sampling_percentage := p\<rparr>"

definition SetInterpolator :: "interpolator \<Rightarrow> registration_method \<Rightarrow> registration_method" where
  "SetInterpolator i rm = rm\<lparr>rm_interpolator := i\<rparr>"

definition SetOptimizerAsGradientDescent :: "real \<Rightarrow> nat \<Rightarrow> registration_method \<Rightarrow> registration_method" where
  "SetOptimizerAsGradientDescent learningRate numberOfIterations rm =
     rm\<lparr>rm_optimizer := Some (GradientDescent learningRate numberOfIterations)\<rparr>"

definition SetOptimizerScalesFromPhysicalShift :: "registration_method \<Rightarrow> registration_method" where
  "SetOptimizerScalesFromPhysicalShift rm = rm\<lparr>rm_scales := PhysicalShift\<rparr>"

definition GetOptimizerStopConditionDescription :: "registration_method \<Rightarrow> string" where
  "GetOptimizerStopConditionDescription rm = rm_stop_condition rm"

section \<open>The world outside the notebook\<close>

text \<open>
  What the notebook shows, and what it prints: an f-string is the list of its literal
  pieces and formatted values.
\<close>

datatype display =
    Interact "int \<times> int" "int \<times> int" image image
  | Hist "real list" nat real string string
  | Legend
  | Title string

datatype piece =
    Lit string | ShowStr string | ShowInts "int list" | ShowReals "real list"
  | ShowReal real | Show2f real | ShowTiming real

text \<open>
  The calls on image and transform objects that the toolkit carries out at once, and so
  may refuse at once, and the steps of the notebook's first cell: imports, the
  \<open>%matplotlib inline\<close> magic and \<open>%run\<close> of a script.
\<close>

datatype toolkit_call =
    Call_Image "int list" pixel_id
  | Call_SetSpacing image "real list"
  | Call_SetOrigin image "real list"
  | Call_SetDirection image "real list"
  | Call_SetMatrix transform "real list"
  | Call_SetTranslation transform "real list"

fun method_name :: "toolkit_call \<Rightarrow> string" where
  "method_name (Call_Image _ _) = ''sitk.Image''"
| "method_name (Call_SetSpacing _ _) = ''Image.SetSpacing''"
| "method_name (Call_SetOrigin _ _) = ''Image.SetOrigin''"
| "method_name (Call_SetDirection _ _) = ''Image.SetDirection''"
| "method_name (Call_SetMatrix _ _) = ''Euler3DTransform.SetMatrix''"
| "method_name (Call_SetTranslation _ _) = ''Euler3DTransform.SetTranslation''"

datatype first_cell_step = Import string | MatplotlibInline | RunScript string

text \<open>
  The calls that leave the notebook. The trace keeps them in the order they are made,
  each with the exception it raised, if any.
\<close>

datatype event =
    EvFirstCell first_cell_step
  | EvToolkit string
  | EvMemoryRatio
  | EvFetchData string
  | EvReadImage string pixel_id
  | EvLoadGroundTruth string
  | EvAbsoluteOrientation
  | EvGeneratePointset nat
  | EvTransformPoint point
  | EvDisplay display
  | EvResampleExecute interpolator
  | EvCenteredTransformInitializer
  | EvRegistrationExecute interpolator image transform
  | EvRegistrationErrors
  | EvPrint "piece list"

text \<open>
  What the notebook leaves to the toolkit, to numpy, to IPython, to the data-fetch
  utility and to the registration-utilities module. Each computation is a function of its
  arguments that may raise; \<open>lib_raises\<close> and \<open>lib_first_cell\<close> say which exception, if any, a
  call on an object or a step of the first cell raises; \<open>lib_memory_ratio\<close> is the numpy
  expression of the resampling cell; \<open>lib_elapsed\<close> is the time that \<open>%%timeit\<close> measures
  for the calls of a cell.
\<close>

record library =
  lib_first_cell :: "first_cell_step \<Rightarrow> exn option"
  lib_raises :: "toolkit_call \<Rightarrow> exn option"
  lib_memory_ratio :: "int list \<Rightarrow> int list \<Rightarrow> exn + real"
  lib_fetch_data :: "string \<Rightarrow> exn + string"
  lib_ReadImage :: "string \<Rightarrow> pixel_id \<Rightarrow> exn + image"
  lib_load_RIRE_ground_truth :: "string \<Rightarrow> exn + (point list \<times> point list)"
  lib_absolute_orientation_m :: "point list \<Rightarrow> point list \<Rightarrow> exn + (real list \<times> real list)"
  lib_generate_random_pointset :: "image \<Rightarrow> nat \<Rightarrow> exn + point list"
  lib_TransformPoint :: "transform \<Rightarrow> point \<Rightarrow> exn + point"
  lib_display :: "display \<Rightarrow> exn + unit"
  lib_resample :: "resample_filter \<Rightarrow> image \<Rightarrow> exn + real list"
  lib_CenteredTransformInitializer ::
    "image \<Rightarrow> image \<Rightarrow> transform \<Rightarrow> initializer_mode \<Rightarrow> exn + transform"
  lib_optimize ::
    "registration_method \<Rightarrow> image \<Rightarrow> image \<Rightarrow> transform \<Rightarrow> exn + (transform \<times> string)"
  lib_registration_errors ::
    "transform \<Rightarrow> point list \<Rightarrow> point list \<Rightarrow> exn + (real \<times> real \<times> real \<times> real \<times> real list)"
  lib_elapsed :: "(event \<times> exn option) list \<Rightarrow> real"

text \<open>
  Transform objects are shared between the notebook and the registration method, so
  they live in a store: a reference is an index into \<open>heap\<close>.
\<close>

record world =
  heap :: "transform list"
  trace :: "(event \<times> exn option) list"

type_synonym 'a prog = "world \<Rightarrow> (exn + 'a) \<times> world"

definition ret :: "'a \<Rightarrow> 'a prog" where
  "ret x w = (Inr x, w)"

definition raise :: "exn \<Rightarrow> 'a prog" where
  "raise e w = (Inl e, w)"

definition then_do :: "'a prog \<Rightarrow> ('a \<Rightarrow> 'b prog) \<Rightarrow> 'b prog" where
  "then_do m f w = (case m w of (Inl e, w') \<Rightarrow> (Inl e, w') | (Inr x, w') \<Rightarrow> f x w')"

definition outcome :: "exn + 'a \<Rightarrow> exn option" where
  "outcome r = (case r of Inl e \<Rightarrow> Some e | Inr _ \<Rightarrow> None)"

definition lib_call :: "event \<Rightarrow> exn + 'a \<Rightarrow> 'a prog" where
  "lib_call ev r w = (r, w\<lparr>trace := trace w @ [(ev, outcome r)]\<rparr>)"

definition print :: "piece list \<Rightarrow> unit prog" where
  "print ps = lib_call (EvPrint ps) (Inr ())"

definition new_transform :: "transform \<Rightarrow> ref prog" where
  "new_transform t w = (Inr (length (heap w)), w\<lparr>heap := heap w @ [t]\<rparr>)"

definition get_transform :: "ref \<Rightarrow> transform prog" where
  "get_transform r w = (Inr (heap w ! r), w)"

definition put_transform :: "ref \<Rightarrow> transform \<Rightarrow> unit prog" where
  "put_transform r t w = (Inr (), w\<lparr>heap := (heap w)[r := t]\<rparr>)"

text \<open>
  \<open>SetInitialTransform(transform, inPlace)\<close>: in place the method optimises the caller's
  object, otherwise a copy of it.
\<close>

definition SetInitialTransform :: "ref \<Rightarrow> bool \<Rightarrow> registration_method \<Rightarrow> registration_method prog" where
  "SetInitialTransform t inPlace rm =
     (if inPlace then ret (rm\<lparr>rm_initial_transform := Some t\<rparr>)
      else then_do (get_transform t) (\<lambda>v.
           then_do (new_transform v) (\<lambda>r.
           ret (rm\<lparr>rm_initial_transform := Some r\<rparr>))))"

text \<open>
  \<open>Execute(fixed, moving)\<close>: optimises the method's transform object and returns it; the
  method keeps the optimizer's stop condition.
\<close>

definition Execute :: "library \<Rightarrow> registration_method \<Rightarrow> image \<Rightarrow> image \<Rightarrow> (ref \<times> registration_method) prog" where
  "Execute L rm fixed_image moving_image =
     (case rm_initial_transform rm of
        None \<Rightarrow> raise (RuntimeError ''initial transform not set'')
      | Some r \<Rightarrow>
          then_do (get_transform r) (\<lambda>v.
          then_do (lib_call (EvRegistrationExecute (rm_interpolator rm) moving_image v)
                     (lib_optimize L rm fixed_image moving_image v)) (\<lambda>(final, stop).
          then_do (put_transform r final) (\<lambda>_.
          ret (r, rm\<lparr>rm_stop_condition := stop\<rparr>)))))"

text \<open>The calls into the toolkit and the helper modules, each recorded in the trace.\<close>

definition fdata :: "library \<Rightarrow> string \<Rightarrow> string prog" where
  "fdata L name = lib_call (EvFetchData name) (lib_fetch_data L name)"

definition ReadImage :: "library \<Rightarrow> string \<Rightarrow> pixel_id \<Rightarrow> image prog" where
  "ReadImage L path pid = lib_call (EvReadImage path pid) (lib_ReadImage L path pid)"

definition load_RIRE_ground_truth :: "library \<Rightarrow> string \<Rightarrow> (point list \<times> point list) prog" where
  "load_RIRE_ground_truth L path = lib_call (EvLoadGroundTruth path) (lib_load_RIRE_ground_truth L path)"

definition absolute_orientation_m :: "library \<Rightarrow> point list \<Rightarrow> point list \<Rightarrow> (real list \<times> real list) prog" where
  "absolute_orientation_m L ps qs = lib_call EvAbsoluteOrientation (lib_absolute_orientation_m L ps qs)"

definition generate_random_pointset :: "library \<Rightarrow> image \<Rightarrow> nat \<Rightarrow> point list prog" where
  "generate_random_pointset L img n = lib_call (EvGeneratePointset n) (lib_generate_random_pointset L img n)"

definition TransformPoint :: "library \<Rightarrow> transform \<Rightarrow> point \<Rightarrow> point prog" where
  "TransformPoint L t p = lib_call (EvTransformPoint p) (lib_TransformPoint L t p)"

definition show_display :: "library \<Rightarrow> display \<Rightarrow> unit prog" where
  "show_display L d = lib_call (EvDisplay d) (lib_display L d)"

definition ResampleExecute :: "library \<Rightarrow> resample_filter \<Rightarrow> image \<Rightarrow> image prog" where
  "ResampleExecute L f img =
     then_do (lib_call (EvResampleExecute (rs_interpolator f)) (lib_resample L f img)) (\<lambda>px.
     ret \<lparr>img_size = rs_size f, img_spacing = rs_spacing f, img_origin = rs_origin f,
          img_direction = rs_direction f, img_pixel_id = img_pixel_id img, img_pixels = px\<rparr>)"

definition CenteredTransformInitializer ::
  "library \<Rightarrow> image \<Rightarrow> image \<Rightarrow> transform \<Rightarrow> initializer_mode \<Rightarrow> ref prog" where
  "CenteredTransformInitializer L fixed_image moving_image t mode =
     then_do (lib_call EvCenteredTransformInitializer
                (lib_CenteredTransformInitializer L fixed_image moving_image t mode))
       new_transform"

definition registration_errors ::
  "library \<Rightarrow> ref \<Rightarrow> point list \<Rightarrow> point list \<Rightarrow> (real \<times> real \<times> real \<times> real \<times> real list) prog" where
  "registration_errors L tx ps qs =
     then_do (get_transform tx) (\<lambda>v.
     lib_call EvRegistrationErrors (lib_registration_errors L v ps qs))"

text \<open>
  A call on an image or a transform object: the toolkit may refuse it; otherwise the
  object is constructed or updated.
\<close>

definition checked :: "library \<Rightarrow> toolkit_call \<Rightarrow> 'a \<Rightarrow> 'a prog" where
  "checked L c x =
     lib_call (EvToolkit (method_name c))
       (case lib_raises L c of Some e \<Rightarrow> Inl e | None \<Rightarrow> Inr x)"

definition Image :: "library \<Rightarrow> int list \<Rightarrow> pixel_id \<Rightarrow> image prog" where
  "Image L sz pid = checked L (Call_Image sz pid) (blank_image sz pid)"

definition SetSpacing :: "library \<Rightarrow> real list \<Rightarrow> image \<Rightarrow> image prog" where
  "SetSpacing L sp img = checked L (Call_SetSpacing img sp) (img\<lparr>img_spacing := sp\<rparr>)"

definition SetOrigin :: "library \<Rightarrow> real list \<Rightarrow> image \<Rightarrow> image prog" where
  "SetOrigin L orig img = checked L (Call_SetOrigin img orig) (img\<lparr>img_origin := orig\<rparr>)"

definition SetDirection :: "library \<Rightarrow> real list \<Rightarrow> image \<Rightarrow> image prog" where
  "SetDirection L d img = checked L (Call_SetDirection img d) (img\<lparr>img_direction := d\<rparr>)"

definition SetMatrix :: "library \<Rightarrow> real list \<Rightarrow> transform \<Rightarrow> transform prog" where
  "SetMatrix L m t = checked L (Call_SetMatrix t m) (t\<lparr>tf_matrix := m\<rparr>)"

definition SetTranslation :: "library \<Rightarrow> real list \<Rightarrow> transform \<Rightarrow> transform prog" where
  "SetTranslation L v t = checked L (Call_SetTranslation t v) (t\<lparr>tf_translation := v\<rparr>)"

text \<open>
  \<open>(np.array(a) / np.array(b).astype(float)).prod()\<close>, and a step of the first cell.
\<close>

definition memory_ratio :: "library \<Rightarrow> int list \<Rightarrow> int list \<Rightarrow> real prog" where
  "memory_ratio L a b = lib_call EvMemoryRatio (lib_memory_ratio L a b)"

definition run_step :: "library \<Rightarrow> first_cell_step \<Rightarrow> unit prog" where
  "run_step L s = lib_call (EvFirstCell s) (case lib_first_cell L s of Some e \<Rightarrow> Inl e | None \<Rightarrow> Inr ())"

text \<open>
  The cell magic \<open>%%timeit -r1 -n1\<close>: the body of the cell runs once, then the time
  measured for it is printed. When the body raises, nothing is printed.
\<close>

definition get_trace :: "(event \<times> exn option) list prog" where
  "get_trace w = (Inr (trace w), w)"

definition timeit_r1_n1 :: "library \<Rightarrow> 'a prog \<Rightarrow> 'a prog" where
  "timeit_r1_n1 L body =
     then_do get_trace (\<lambda>before.
     then_do body (\<lambda>x.
     then_do get_trace (\<lambda>after.
     then_do (print [ShowTiming (lib_elapsed L (drop (length before) after))]) (\<lambda>_.
     ret x))))"

text \<open>A list comprehension whose body may raise, and indexing a tuple.\<close>

fun map_prog :: "('a \<Rightarrow> 'b prog) \<Rightarrow> 'a list \<Rightarrow> 'b list prog" where
  "map_prog f [] = ret []"
| "map_prog f (x # xs) = then_do (f x) (\<lambda>y. then_do (map_prog f xs) (\<lambda>ys. ret (y # ys)))"

definition py_index :: "'a list \<Rightarrow> nat \<Rightarrow> 'a prog" where
  "py_index xs i = (if i < length xs then ret (xs ! i) else raise IndexError)"

definition lift :: "exn + 'a \<Rightarrow> 'a prog" where
  "lift r w = (r, w)"

section \<open>64\_Registration\_Memory\_Time\_Tradeoff: the notebook's code\<close>

text \<open>
  The first cell: the imports, the magics and the definition of \<open>register_images\<close>.
\<close>

definition first_cell_steps :: "first_cell_step list" where
  "first_cell_steps =
     [Import ''SimpleITK'', Import ''numpy'', MatplotlibInline, Import ''matplotlib.pyplot'',
      RunScript ''update_path_to_download_script'', Import ''downloaddata'',
      Import ''registration_utilities'', Import ''ipywidgets'']"

definition first_cell :: "library \<Rightarrow> unit prog" where
  "first_cell L = then_do (map_prog (run_step L) first_cell_steps) (\<lambda>_. ret ())"

text \<open>
  The list comprehension of the resampling cell:
  \<open>[int(spacing / new_s * size) for spacing, size, new_s in zip(original_spacing, original_size, new_spacing)]\<close>.
  \<open>scaled_size\<close> is the float \<open>spacing / new_s * size\<close>: the quotient is rounded, the size
  is converted to a float, the product is rounded again. A zero \<open>new_s\<close> raises, as does
  \<open>int\<close> of an infinity or a not-a-number; \<open>zip\<close> stops at the shortest list.
\<close>

definition scaled_size :: "real \<Rightarrow> int \<Rightarrow> real \<Rightarrow> exn + double" where
  "scaled_size spacing sz new_s =
     (case float_div spacing new_s of
        Inl e \<Rightarrow> Inl e
      | Inr q \<Rightarrow> (case int_to_float sz of
                    Inl e \<Rightarrow> Inl e
                  | Inr f \<Rightarrow> Inr (float_mul q f)))"

fun resampled_image_size :: "real list \<Rightarrow> int list \<Rightarrow> real list \<Rightarrow> exn + int list" where
  "resampled_image_size (spacing # sps) (sz # szs) (new_s # nss) =
     (case scaled_size spacing sz new_s of
        Inl e \<Rightarrow> Inl e
      | Inr x \<Rightarrow> (case py_int x of
                    Inl e \<Rightarrow> Inl e
                  | Inr n \<Rightarrow> (case resampled_image_size sps szs nss of
                                Inl e \<Rightarrow> Inl e
                              | Inr rest \<Rightarrow> Inr (n # rest))))"
| "resampled_image_size _ _ _ = Inr []"

text \<open>The spec's formula for one dimension: round(original spacing / new spacing * original size).\<close>

definition spec_resampled_size :: "real \<Rightarrow> int \<Rightarrow> real \<Rightarrow> int" where
  "spec_resampled_size spacing sz new_s = round (spacing / new_s * real_of_int sz)"

definition register_images :: "library \<Rightarrow> image \<Rightarrow> image \<Rightarrow> ref \<Rightarrow> interpolator \<Rightarrow> (ref \<times> string) prog" where
  "register_images L fixed_image moving_image initial_transform interp =
     (let registration_method = ImageRegistrationMethod;
          registration_method = SetMetricAsMattesMutualInformation 50 registration_method;
          registration_method = SetMetricSamplingStrategy REGULAR registration_method;
          registration_method = SetMetricSamplingPercentage (1 / 100) registration_method;
          registration_method = SetInterpolator interp registration_method;
          registration_method = SetOptimizerAsGradientDescent 1 1000 registration_method;
          registration_method = SetOptimizerScalesFromPhysicalShift registration_method
      in then_do (SetInitialTransform initial_transform False registration_method)
           (\<lambda>registration_method.
         then_do (Execute L registration_method fixed_image moving_image)
           (\<lambda>(final_transform, registration_method).
         ret (final_transform, GetOptimizerStopConditionDescription registration_method))))"

text \<open>The data-loading cell: its result is the notebook's globals that later cells use.\<close>

definition data_loading_cell :: "library \<Rightarrow> (image \<times> image \<times> point list \<times> point list) prog" where
  "data_loading_cell L =
     then_do (fdata L ''training_001_ct.mha'') (\<lambda>path.
     then_do (ReadImage L path sitkFloat32) (\<lambda>fixed_image.
     then_do (fdata L ''training_001_mr_T1.mha'') (\<lambda>path.
     then_do (ReadImage L path sitkFloat32) (\<lambda>moving_image.
     then_do (fdata L ''ct_T1.standard'') (\<lambda>path.
     then_do (load_RIRE_ground_truth L path) (\<lambda>(fixed_fiducial_points, moving_fiducial_points).
     then_do (absolute_orientation_m L fixed_fiducial_points moving_fiducial_points) (\<lambda>(R, t).
     then_do (SetMatrix L R Euler3DTransform) (\<lambda>reference_transform.
     then_do (SetTranslation L t reference_transform) (\<lambda>reference_transform.
     then_do (generate_random_pointset L fixed_image 1000) (\<lambda>fixed_points.
     then_do (map_prog (TransformPoint L reference_transform) fixed_points) (\<lambda>moving_points.
     then_do (py_index (img_size fixed_image) 2) (\<lambda>fixed_depth.
     then_do (py_index (img_size moving_image) 2) (\<lambda>moving_depth.
     then_do (show_display L (Interact (0, fixed_depth - 1) (0, moving_depth - 1)
                                fixed_image moving_image)) (\<lambda>_.
     ret (fixed_image, moving_image, fixed_points, moving_points)))))))))))))))"

text \<open>The resampling cell: its result is \<open>resampled_moving_image\<close>.\<close>

definition resampling_cell :: "library \<Rightarrow> image \<Rightarrow> image prog" where
  "resampling_cell L moving_image =
     (let new_spacing = replicate (GetDimension moving_image) 1;
          original_size = img_size moving_image;
          original_spacing = img_spacing moving_image
      in
      then_do (lift (resampled_image_size original_spacing original_size new_spacing))
        (\<lambda>resampled_size.
      then_do (Image L resampled_size (img_pixel_id moving_image)) (\<lambda>resampled_moving_image.
      then_do (SetSpacing L new_spacing resampled_moving_image) (\<lambda>resampled_moving_image.
      then_do (SetOrigin L (img_origin moving_image) resampled_moving_image)
        (\<lambda>resampled_moving_image.
      then_do (SetDirection L (img_direction moving_image) resampled_moving_image)
        (\<lambda>resampled_moving_image.
      let resample = ResampleImageFilter;
          resample = SetReferenceImage resampled_moving_image resample;
          resample = resample\<lparr>rs_interpolator := sitkBSpline\<rparr>;
          resample = resample\<lparr>rs_transform := Transform\<rparr>
      in
      then_do (ResampleExecute L resample moving_image) (\<lambda>resampled_moving_image.
      then_do (print [Lit ''Original image size and spacing: '', ShowInts original_size,
                      Lit '' '', ShowReals original_spacing]) (\<lambda>_.
      then_do (print [Lit ''Resampled image size and spacing: '',
                      ShowInts (img_size resampled_moving_image), Lit '' '',
                      ShowReals (img_spacing resampled_moving_image)]) (\<lambda>_.
      then_do (memory_ratio L resampled_size original_size) (\<lambda>ratio.
      then_do (print [Lit ''Memory ratio: 1 : '', ShowReal ratio]) (\<lambda>_.
      ret resampled_moving_image)))))))))))"

text \<open>The initial alignment, shared by both registrations.\<close>

definition initial_alignment_cell :: "library \<Rightarrow> image \<Rightarrow> image \<Rightarrow> ref prog" where
  "initial_alignment_cell L fixed_image moving_image =
     CenteredTransformInitializer L fixed_image moving_image Euler3DTransform GEOMETRY"

text \<open>
  The two registration cells differ in the moving image and the interpolator; each runs
  under \<open>%%timeit -r1 -n1\<close> and leaves its list of errors in a global variable
  (\<open>original_resolution_errors\<close>, \<open>resampled_resolution_errors\<close>).
\<close>

definition print_errors :: "real \<Rightarrow> real \<Rightarrow> real \<Rightarrow> unit prog" where
  "print_errors final_errors_mean final_errors_std final_errors_max =
     print [Lit ''After registration, errors in millimeters, mean(std): '',
            Show2f final_errors_mean, Lit ''('', Show2f final_errors_std, Lit ''), max: '',
            Show2f final_errors_max]"

definition original_resolution_cell ::
  "library \<Rightarrow> image \<Rightarrow> image \<Rightarrow> ref \<Rightarrow> point list \<Rightarrow> point list \<Rightarrow> real list prog" where
  "original_resolution_cell L fixed_image moving_image initial_transform fixed_points moving_points =
     timeit_r1_n1 L
      (then_do (register_images L fixed_image moving_image initial_transform sitkLinear)
         (\<lambda>(final_transform, optimizer_termination).
       then_do (registration_errors L final_transform fixed_points moving_points)
         (\<lambda>(final_errors_mean, final_errors_std, _, final_errors_max, original_resolution_errors).
       then_do (print [ShowStr optimizer_termination]) (\<lambda>_.
       then_do (print_errors final_errors_mean final_errors_std final_errors_max) (\<lambda>_.
       ret original_resolution_errors)))))"

definition higher_resolution_cell ::
  "library \<Rightarrow> image \<Rightarrow> image \<Rightarrow> ref \<Rightarrow> point list \<Rightarrow> point list \<Rightarrow> real list prog" where
  "higher_resolution_cell L fixed_image resampled_moving_image initial_transform fixed_points moving_points =
     timeit_r1_n1 L
      (then_do (register_images L fixed_image resampled_moving_image initial_transform
                  sitkNearestNeighbor)
         (\<lambda>(final_transform, optimizer_termination).
       then_do (registration_errors L final_transform fixed_points moving_points)
         (\<lambda>(final_errors_mean, final_errors_std, _, final_errors_max, resampled_resolution_errors).
       then_do (print [ShowStr optimizer_termination]) (\<lambda>_.
       then_do (print_errors final_errors_mean final_errors_std final_errors_max) (\<lambda>_.
       ret resampled_resolution_errors)))))"

definition histogram_cell :: "library \<Rightarrow> real list \<Rightarrow> real list \<Rightarrow> unit prog" where
  "histogram_cell L original_resolution_errors resampled_resolution_errors =
     then_do (show_display L (Hist original_resolution_errors 20 (1 / 2)
                                ''original resolution'' ''blue'')) (\<lambda>_.
     then_do (show_display L (Hist resampled_resolution_errors 20 (1 / 2)
                                ''higher resolution'' ''green'')) (\<lambda>_.
     then_do (show_display L Legend) (\<lambda>_.
     show_display L (Title ''TRE histogram''))))"

text \<open>The notebook, run from top to bottom.\<close>

definition notebook :: "library \<Rightarrow> unit prog" where
  "notebook L =
     then_do (first_cell L) (\<lambda>_.
     then_do (data_loading_cell L) (\<lambda>(fixed_image, moving_image, fixed_points, moving_points).
     then_do (resampling_cell L moving_image) (\<lambda>resampled_moving_image.
     then_do (initial_alignment_cell L fixed_image moving_image) (\<lambda>initial_transform.
     then_do (original_resolution_cell L fixed_image moving_image initial_transform
                fixed_points moving_points) (\<lambda>original_resolution_errors.
     then_do (higher_resolution_cell L fixed_image resampled_moving_image initial_transform
                fixed_points moving_points) (\<lambda>resampled_resolution_errors.
     histogram_cell L original_resolution_errors resampled_resolution_errors))))))"

section \<open>Runs of the notebook\<close>

text \<open>
  The registration method as \<open>register_images\<close> hands it to the optimizer; \<open>r\<close> is the
  reference of the method's own transform object.
\<close>

definition configured_method :: "interpolator \<Rightarrow> ref \<Rightarrow> registration_method" where
  "configured_method interp r =
     \<lparr>rm_metric = Some (MattesMutualInformation 50), rm_sampling_strategy = REGULAR,
      rm_sampling_percentage = 1 / 100, rm_interpolator = interp,
      rm_optimizer = Some (GradientDescent 1 1000), rm_scales = PhysicalShift,
      rm_initial_transform = Some r, rm_stop_condition = []\<rparr>"

text \<open>
  A small library to run the notebook on: two 2 x 2 x 2 images with the spacing of the
  RIRE magnetic resonance image, one point, and an optimizer that moves the transform.
  In the second one no file of the data set can be fetched.
\<close>

definition demo_image :: "pixel_id \<Rightarrow> image" where
  "demo_image pid =
     \<lparr>img_size = [2, 2, 2], img_spacing = [5 / 4, 5 / 4, 4], img_origin = [0, 0, 0],
      img_direction = [1, 0, 0, 0, 1, 0, 0, 0, 1], img_pixel_id = pid,
      img_pixels = [0, 0, 0, 0, 0, 0, 0, 0]\<rparr>"

definition demo_library :: library where
  "demo_library =
     \<lparr>lib_first_cell = (\<lambda>s. None),
      lib_raises = (\<lambda>c. None),
      lib_memory_ratio = (\<lambda>a b. Inr 4),
      lib_fetch_data = (\<lambda>name. Inr (''cache/'' @ name)),
      lib_ReadImage = (\<lambda>path pid. Inr (demo_image pid)),
      lib_load_RIRE_ground_truth = (\<lambda>path. Inr ([[0, 0, 0]], [[0, 0, 0]])),
      lib_absolute_orientation_m = (\<lambda>ps qs. Inr ([1, 0, 0, 0, 1, 0, 0, 0, 1], [0, 0, 0])),
      lib_generate_random_pointset = (\<lambda>img n. Inr [[0, 0, 0]]),
      lib_TransformPoint = (\<lambda>t p. Inr p),
      lib_display = (\<lambda>d. Inr ()),
      lib_resample = (\<lambda>f img. Inr []),
      lib_CenteredTransformInitializer = (\<lambda>fixed_image moving_image t mode. Inr t),
      lib_optimize = (\<lambda>rm fixed_image moving_image v.
                        Inr (v\<lparr>tf_translation := [1, 2, 3]\<rparr>, ''converged'')),
      lib_registration_errors = (\<lambda>v ps qs. Inr (0, 0, 0, 0, [0])),
      lib_elapsed = (\<lambda>calls. 1)\<rparr>"

definition missing_file_library :: library where
  "missing_file_library =
     demo_library\<lparr>lib_fetch_data := (\<lambda>name. Inl (RuntimeError ''file not found''))\<rparr>"

text \<open>A library whose toolkit refuses the matrix of the reference transform.\<close>

definition refusing_library :: library where
  "refusing_library =
     demo_library
       \<lparr>lib_raises := (\<lambda>c. case c of
                           Call_SetMatrix t m \<Rightarrow> Some (RuntimeError ''matrix is not orthogonal'')
                         | _ \<Rightarrow> None),
        lib_absolute_orientation_m := (\<lambda>ps qs. Inr ([2, 0, 0, 0, 2, 0, 0, 0, 2], [0, 0, 0]))\<rparr>"

definition empty_world :: world where
  "empty_world = \<lparr>heap = [], trace = []\<rparr>"

text \<open>The float nearest to 0.7, a spacing at which the float product is rounded up.\<close>

definition spacing_0_7 :: real where
  "spacing_0_7 = 3152519739159347 / 4503599627370496"

text \<open>
  What a run added to the trace, and the discipline of failures: the calls of a run
  that succeeds raised nothing; a run that fails with \<open>e\<close> made calls that raised
  nothing and then one call that raised \<open>e\<close>, or fails with one of the exceptions that
  the code itself raises (\<open>own\<close>) after calls that raised nothing.
\<close>

definition calls_made :: "world \<Rightarrow> world \<Rightarrow> (event \<times> exn option) list" where
  "calls_made w w' = drop (length (trace w)) (trace w')"

definition propagated :: "exn list \<Rightarrow> world \<Rightarrow> (exn + 'a) \<times> world \<Rightarrow> bool" where
  "propagated own w run =
     (let new = calls_made w (snd run); n = length new in
      trace (snd run) = trace w @ new \<and>
      (case fst run of
         Inr _ \<Rightarrow> map snd new = replicate n None
       | Inl e \<Rightarrow> map snd new = replicate (n - 1) None @ [Some e]
                 \<or> (e \<in> set own \<and> map snd new = replicate n None)))"

definition quiet :: "(event \<times> exn option) list \<Rightarrow> bool" where
  "quiet new = list_all (\<lambda>c. snd c = None) new"

definition fails_last :: "exn list \<Rightarrow> 'a prog \<Rightarrow> bool" where
  "fails_last own p \<longleftrightarrow>
     (\<forall>w. \<exists>new. trace (snd (p w)) = trace w @ new \<and>
        (case fst (p w) of
           Inr _ \<Rightarrow> quiet new
         | Inl e \<Rightarrow> (\<exists>pre ev. new = pre @ [(ev, Some e)] \<and> quiet pre)
                    \<or> (e \<in> set own \<and> quiet new)))"

text \<open>
  The calls of a run of the whole notebook in which nothing raises, cell by cell, as
  functions of the values that the library returned, and what ties these values to
  the library: each is the answer of the library function that the cell calls, on the
  arguments that the cell gives it.
\<close>

definition quietly :: "event list \<Rightarrow> (event \<times> exn option) list" where
  "quietly evs = map (\<lambda>ev. (ev, None)) evs"

definition loading_events ::
  "string \<Rightarrow> string \<Rightarrow> string \<Rightarrow> image \<Rightarrow> image \<Rightarrow> point list \<Rightarrow> event list" where
  "loading_events p1 p2 p3 fixed_image moving_image fixed_points =
     [EvFetchData ''training_001_ct.mha'', EvReadImage p1 sitkFloat32,
      EvFetchData ''training_001_mr_T1.mha'', EvReadImage p2 sitkFloat32,
      EvFetchData ''ct_T1.standard'', EvLoadGroundTruth p3,
      EvAbsoluteOrientation, EvToolkit ''Euler3DTransform.SetMatrix'',
      EvToolkit ''Euler3DTransform.SetTranslation'', EvGeneratePointset 1000]
     @ map EvTransformPoint fixed_points
     @ [EvDisplay (Interact (0, img_size fixed_image ! 2 - 1) (0, img_size moving_image ! 2 - 1)
                     fixed_image moving_image)]"

definition loading_answers ::
  "library \<Rightarrow> string \<Rightarrow> string \<Rightarrow> string \<Rightarrow> image \<Rightarrow> image \<Rightarrow> point list \<Rightarrow> point list \<Rightarrow> bool" where
  "loading_answers L p1 p2 p3 fixed_image moving_image fixed_points moving_points =
     (\<exists>fixed_fiducial_points moving_fiducial_points R t.
        lib_fetch_data L ''training_001_ct.mha'' = Inr p1
        \<and> lib_ReadImage L p1 sitkFloat32 = Inr fixed_image
        \<and> lib_fetch_data L ''training_001_mr_T1.mha'' = Inr p2
        \<and> lib_ReadImage L p2 sitkFloat32 = Inr moving_image
        \<and> lib_fetch_data L ''ct_T1.standard'' = Inr p3
        \<and> lib_load_RIRE_ground_truth L p3 = Inr (fixed_fiducial_points, moving_fiducial_points)
        \<and> lib_absolute_orientation_m L fixed_fiducial_points moving_fiducial_points = Inr (R, t)
        \<and> lib_generate_random_pointset L fixed_image 1000 = Inr fixed_points
        \<and> map (lib_TransformPoint L (Euler3DTransform\<lparr>tf_matrix := R, tf_translation := t\<rparr>))
              fixed_points = map Inr moving_points)"

definition resampling_events :: "image \<Rightarrow> image \<Rightarrow> real \<Rightarrow> event list" where
  "resampling_events moving_image resampled ratio =
     [EvToolkit ''sitk.Image'', EvToolkit ''Image.SetSpacing'', EvToolkit ''Image.SetOrigin'',
      EvToolkit ''Image.SetDirection'', EvResampleExecute sitkBSpline,
      EvPrint [Lit ''Original image size and spacing: '', ShowInts (img_size moving_image),
               Lit '' '', ShowReals (img_spacing moving_image)],
      EvPrint [Lit ''Resampled image size and spacing: '', ShowInts (img_size resampled),
               Lit '' '', ShowReals (img_spacing resampled)],
      EvMemoryRatio,
      EvPrint [Lit ''Memory ratio: 1 : '', ShowReal ratio]]"

definition resampling_answers :: "library \<Rightarrow> image \<Rightarrow> image \<Rightarrow> real \<Rightarrow> bool" where
  "resampling_answers L moving_image resampled ratio =
     (\<exists>resampled_size pixels.
        resampled_image_size (img_spacing moving_image) (img_size moving_image)
          (replicate (GetDimension moving_image) 1) = Inr resampled_size
        \<and> lib_resample L
             \<lparr>rs_size = resampled_size, rs_spacing = replicate (GetDimension moving_image) 1,
              rs_origin = img_origin moving_image, rs_direction = img_direction moving_image,
              rs_interpolator = sitkBSpline, rs_transform = Transform\<rparr>
             moving_image = Inr pixels
        \<and> resampled =
             \<lparr>img_size = resampled_size, img_spacing = replicate (GetDimension moving_image) 1,
              img_origin = img_origin moving_image, img_direction = img_direction moving_image,
              img_pixel_id = img_pixel_id moving_image, img_pixels = pixels\<rparr>
        \<and> lib_memory_ratio L resampled_size (img_size moving_image) = Inr ratio)"

definition registration_body_events ::
  "interpolator \<Rightarrow> image \<Rightarrow> transform \<Rightarrow> string \<Rightarrow> real \<Rightarrow> real \<Rightarrow> real \<Rightarrow> event list" where
  "registration_body_events interp moving v stop mean std mx =
     [EvRegistrationExecute interp moving v, EvRegistrationErrors,
      EvPrint [ShowStr stop],
      EvPrint [Lit ''After registration, errors in millimeters, mean(std): '',
               Show2f mean, Lit ''('', Show2f std, Lit ''), max: '', Show2f mx]]"

definition registration_events ::
  "library \<Rightarrow> interpolator \<Rightarrow> image \<Rightarrow> transform \<Rightarrow> string \<Rightarrow> real \<Rightarrow> real \<Rightarrow> real \<Rightarrow> event list" where
  "registration_events L interp moving v stop mean std mx =
     registration_body_events interp moving v stop mean std mx
     @ [EvPrint [ShowTiming (lib_elapsed L
          (quietly (registration_body_events interp moving v stop mean std mx)))]]"

definition registration_answers ::
  "library \<Rightarrow> interpolator \<Rightarrow> ref \<Rightarrow> image \<Rightarrow> image \<Rightarrow> transform \<Rightarrow> point list \<Rightarrow> point list
     \<Rightarrow> string \<Rightarrow> real \<Rightarrow> real \<Rightarrow> real \<Rightarrow> real list \<Rightarrow> bool" where
  "registration_answers L interp r fixed_image moving v fixed_points moving_points
       stop mean std mx errs =
     (\<exists>final median.
        lib_optimize L (configured_method interp r) fixed_image moving v = Inr (final, stop)
        \<and> lib_registration_errors L final fixed_points moving_points
            = Inr (mean, std, median, mx, errs))"

definition histogram_events :: "real list \<Rightarrow> real list \<Rightarrow> event list" where
  "histogram_events errs1 errs2 =
     [EvDisplay (Hist errs1 20 (1 / 2) ''original resolution'' ''blue''),
      EvDisplay (Hist errs2 20 (1 / 2) ''higher resolution'' ''green''),
      EvDisplay Legend, EvDisplay (Title ''TRE histogram'')]"

text \<open>
  The calls that load code, that read data files, that write to the console and that
  show something on the screen; all others compute.
\<close>

fun loads_code :: "event \<Rightarrow> bool" where
  "loads_code (EvFirstCell (Import _)) = True"
| "loads_code (EvFirstCell (RunScript _)) = True"
| "loads_code _ = False"

fun file_access :: "event \<Rightarrow> bool" where
  "file_access (EvFetchData _) = True"
| "file_access (EvReadImage _ _) = True"
| "file_access (EvLoadGroundTruth _) = True"
| "file_access _ = False"

fun console_output :: "event \<Rightarrow> bool" where
  "console_output (EvPrint _) = True"
| "console_output _ = False"

fun on_screen :: "event \<Rightarrow> bool" where
  "on_screen (EvDisplay _) = True"
| "on_screen _ = False"

text \<open>
  The console output that the spec names, in its words: formatted error statistics and
  optimizer stop conditions.
\<close>

definition spec_console_line :: "piece list \<Rightarrow> bool" where
  "spec_console_line ps =
     (case ps of
        [ShowStr stop] \<Rightarrow> True
      | [Lit a, Show2f mean, Lit b, Show2f std, Lit c, Show2f mx] \<Rightarrow> True
      | _ \<Rightarrow> False)"

definition spec_external_effect :: "event \<Rightarrow> bool" where
  "spec_external_effect ev = (case ev of EvPrint ps \<Rightarrow> spec_console_line ps | _ \<Rightarrow> True)"

text \<open>The run of the notebook on the small library.\<close>

definition demo_resampled :: image where
  "demo_resampled =
     \<lparr>img_size = [2, 2, 8], img_spacing = [1, 1, 1], img_origin = [0, 0, 0],
      img_direction = [1, 0, 0, 0, 1, 0, 0, 0, 1], img_pixel_id = sitkFloat32,
      img_pixels = []\<rparr>"

definition demo_final :: transform where
  "demo_final = Euler3DTransform\<lparr>tf_translation := [1, 2, 3]\<rparr>"

definition demo_events :: "event list" where
  "demo_events =
     map EvFirstCell first_cell_steps
     @ loading_events ''cache/training_001_ct.mha'' ''cache/training_001_mr_T1.mha''
         ''cache/ct_T1.standard'' (demo_image sitkFloat32) (demo_image sitkFloat32) [[0, 0, 0]]
     @ resampling_events (demo_image sitkFloat32) demo_resampled 4
     @ [EvCenteredTransformInitializer]
     @ registration_events demo_library sitkLinear (demo_image sitkFloat32) Euler3DTransform
         ''converged'' 0 0 0
     @ registration_events demo_library sitkNearestNeighbor demo_resampled Euler3DTransform
         ''converged'' 0 0 0
     @ histogram_events [0] [0]"

section \<open>Floats\<close>

lemma pow2_pos: "0 < pow2 k"
  by (simp add: pow2_def)

lemma pow2_powr: "pow2 k = 2 powr real_of_int k"
  by (simp only: pow2_def powr_real_of_int [of 2 k] inverse_eq_divide)

lemma binary_exponent:
  assumes "pow2 e \<le> \<bar>x\<bar>" and "\<bar>x\<bar> < pow2 (e + 1)"
  shows "\<lfloor>log 2 \<bar>x\<bar>\<rfloor> = e"
proof -
  have pos: "0 < \<bar>x\<bar>" using assms(1) pow2_pos [of e] by linarith
  have "2 powr real_of_int e \<le> \<bar>x\<bar>" "\<bar>x\<bar> < 2 powr (real_of_int e + 1)"
    using assms by (simp_all add: pow2_powr)
  then show ?thesis
    using pos by (simp add: floor_log_eq_powr_iff)
qed

text \<open>Rounding a number whose binary exponent is known.\<close>

lemma round_to_double_eval:
  assumes "pow2 e \<le> \<bar>x\<bar>" and "\<bar>x\<bar> < pow2 (e + 1)" and "- 1022 \<le> e"
  shows "round_to_double x =
           (let u = pow2 (e - 52); r = of_int (round_half_even (x / u)) * u
            in if 2 ^ 1024 \<le> \<bar>r\<bar> then (if 0 < x then PlusInf else MinusInf) else Finite r)"
proof -
  have "x \<noteq> 0"
  proof
    assume "x = 0"
    with assms(1) have "pow2 e \<le> 0" by simp
    with pow2_pos [of e] show False by linarith
  qed
  moreover have "max \<lfloor>log 2 \<bar>x\<bar>\<rfloor> (- 1022) = e"
    using binary_exponent [OF assms(1,2)] assms(3) by simp
  ultimately show ?thesis by (simp add: round_to_double_def Let_def)
qed

lemma round_half_even_nonneg: "0 \<le> y \<Longrightarrow> 0 \<le> round_half_even y"
  by (simp add: round_half_even_def Let_def)

lemma round_to_double_nonneg:
  assumes "0 \<le> x"
  shows "round_to_double x = PlusInf \<or> (\<exists>r. round_to_double x = Finite r \<and> 0 \<le> r)"
proof (cases "x = 0")
  case True
  then show ?thesis by (simp add: round_to_double_def)
next
  case False
  define u where "u = pow2 (max \<lfloor>log 2 \<bar>x\<bar>\<rfloor> (- 1022) - 52)"
  have u: "0 < u" by (simp add: u_def pow2_pos)
  have "0 \<le> x / u" using assms u by simp
  then have "0 \<le> round_half_even (x / u)" by (rule round_half_even_nonneg)
  then have "0 \<le> real_of_int (round_half_even (x / u)) * u" using u by simp
  then show ?thesis
    using False assms by (auto simp: round_to_double_def Let_def u_def)
qed

lemma round_half_even_le: "real_of_int (round_half_even y) \<le> y + 1 / 2"
proof -
  have "real_of_int \<lfloor>y\<rfloor> \<le> y" by simp
  moreover have "real_of_int \<lfloor>y\<rfloor> + 1 \<le> y + 1 / 2" if "1 / 2 \<le> y - real_of_int \<lfloor>y\<rfloor>"
    using that by linarith
  ultimately show ?thesis
    unfolding round_half_even_def Let_def
    by (auto split: if_splits) linarith+
qed

lemma pow2_add: "pow2 (a + b) = pow2 a * pow2 b"
  by (simp add: pow2_powr powr_add)

lemma pow2_floor_log_le:
  assumes "0 < x"
  shows "pow2 \<lfloor>log 2 x\<rfloor> \<le> x"
proof -
  have "2 powr real_of_int \<lfloor>log 2 x\<rfloor> \<le> 2 powr log 2 x"
    by (rule powr_mono) simp_all
  also have "\<dots> = x" using assms by simp
  finally show ?thesis by (simp add: pow2_powr)
qed

lemma less_pow2_floor_log:
  assumes "0 < x"
  shows "x < pow2 (\<lfloor>log 2 x\<rfloor> + 1)"
proof -
  have "log 2 x < real_of_int \<lfloor>log 2 x\<rfloor> + 1" by linarith
  then have "2 powr log 2 x < 2 powr (real_of_int \<lfloor>log 2 x\<rfloor> + 1)"
    by (simp add: powr_less_mono)
  then show ?thesis using assms by (simp add: pow2_powr)
qed

lemma pow2_mono: "a \<le> b \<Longrightarrow> pow2 a \<le> pow2 b"
  by (simp add: pow2_powr)

text \<open>Rounding a positive number adds at most half a unit in the last place.\<close>

lemma round_to_double_upper:
  assumes "0 < x" and "round_to_double x = Finite p"
  shows "p \<le> x + pow2 (max \<lfloor>log 2 x\<rfloor> (- 1022) - 52) / 2"
proof -
  define u where "u = pow2 (max \<lfloor>log 2 x\<rfloor> (- 1022) - 52)"
  have u: "0 < u" by (simp add: u_def pow2_pos)
  from assms have p: "p = real_of_int (round_half_even (x / u)) * u"
    by (auto simp: round_to_double_def Let_def u_def split: if_splits)
  have "real_of_int (round_half_even (x / u)) * u \<le> (x / u + 1 / 2) * u"
    using u round_half_even_le [of "x / u"] by (intro mult_right_mono) simp_all
  also have "\<dots> = x + u / 2" using u by (simp add: field_simps)
  finally show ?thesis using p by (simp add: u_def)
qed

lemma floor_of_rounded_product:
  assumes "0 < x" and "round_to_double x = Finite p" and "0 \<le> p"
  shows "real_of_int \<lfloor>p\<rfloor> \<le> x * (1 + pow2 (- 53))"
proof (cases "- 1022 \<le> \<lfloor>log 2 x\<rfloor>")
  case True
  then have m: "max \<lfloor>log 2 x\<rfloor> (- 1022) = \<lfloor>log 2 x\<rfloor>" by simp
  have "pow2 (\<lfloor>log 2 x\<rfloor> - 52) / 2 = pow2 \<lfloor>log 2 x\<rfloor> * pow2 (- 53)"
  proof -
    have "pow2 (\<lfloor>log 2 x\<rfloor> - 52) = pow2 (\<lfloor>log 2 x\<rfloor> + (- 53) + 1)" by simp
    also have "\<dots> = pow2 \<lfloor>log 2 x\<rfloor> * pow2 (- 53) * pow2 1"
      by (simp only: pow2_add)
    also have "pow2 1 = 2" by (simp add: pow2_def)
    finally show ?thesis by simp
  qed
  also have "\<dots> \<le> x * pow2 (- 53)"
    using pow2_floor_log_le [OF assms(1)] pow2_pos [of "- 53"]
    by (intro mult_right_mono) simp_all
  finally have "pow2 (\<lfloor>log 2 x\<rfloor> - 52) / 2 \<le> x * pow2 (- 53)" .
  with round_to_double_upper [OF assms(1,2)] m have "p \<le> x + x * pow2 (- 53)" by simp
  moreover have "real_of_int \<lfloor>p\<rfloor> \<le> p" by simp
  ultimately have "real_of_int \<lfloor>p\<rfloor> \<le> x + x * pow2 (- 53)" by linarith
  then show ?thesis by (simp add: algebra_simps)
next
  case False
  then have m: "max \<lfloor>log 2 x\<rfloor> (- 1022) = - 1022" by linarith
  from False have "\<lfloor>log 2 x\<rfloor> + 1 \<le> - 1022" by linarith
  then have "pow2 (\<lfloor>log 2 x\<rfloor> + 1) \<le> pow2 (- 1022)" by (rule pow2_mono)
  with less_pow2_floor_log [OF assms(1)] have x: "x < pow2 (- 1022)" by simp
  have small: "pow2 (- 1022) \<le> 1 / 4" "pow2 (- 1074) / 2 \<le> 1 / 4"
    using pow2_mono [of "- 1022" "- 2"] pow2_mono [of "- 1074" "- 1"]
    by (simp_all add: pow2_def [of "- 2"] pow2_def [of "- 1"])
  from round_to_double_upper [OF assms(1,2)] m have "p \<le> x + pow2 (- 1074) / 2" by simp
  with x small have "p < 1" by simp
  with assms(3) have "\<lfloor>p\<rfloor> = 0" by (simp add: floor_eq_iff)
  moreover have "0 \<le> x * (1 + pow2 (- 53))"
    using assms(1) pow2_pos [of "- 53"] by simp
  ultimately show ?thesis by simp
qed

text \<open>The floats of the examples.\<close>

lemma spacing_0_7_is_double: "round_to_double spacing_0_7 = Finite spacing_0_7"
  by (subst round_to_double_eval [where e = "- 1"])
     (simp_all add: pow2_def round_half_even_def Let_def spacing_0_7_def)

lemma ten_is_double: "round_to_double 10 = Finite 10"
  by (subst round_to_double_eval [where e = 3])
     (simp_all add: pow2_def round_half_even_def Let_def)

lemma scaled_size_5_4_by_3: "scaled_size (5 / 4) 3 1 = Inr (Finite (15 / 4))"
proof -
  have "round_to_double (5 / 4) = Finite (5 / 4)"
    by (subst round_to_double_eval [where e = 0])
       (simp_all add: pow2_def round_half_even_def Let_def)
  moreover have "round_to_double 3 = Finite 3"
    by (subst round_to_double_eval [where e = 1])
       (simp_all add: pow2_def round_half_even_def Let_def)
  moreover have "round_to_double (15 / 4) = Finite (15 / 4)"
    by (subst round_to_double_eval [where e = 1])
       (simp_all add: pow2_def round_half_even_def Let_def)
  ultimately show ?thesis
    by (simp add: scaled_size_def float_div_def int_to_float_def float_mul_def)
qed

lemma scaled_size_5_4_by_2: "scaled_size (5 / 4) 2 1 = Inr (Finite (5 / 2))"
proof -
  have "round_to_double (5 / 4) = Finite (5 / 4)"
    by (subst round_to_double_eval [where e = 0])
       (simp_all add: pow2_def round_half_even_def Let_def)
  moreover have "round_to_double 2 = Finite 2"
    by (subst round_to_double_eval [where e = 1])
       (simp_all add: pow2_def round_half_even_def Let_def)
  moreover have "round_to_double (5 / 2) = Finite (5 / 2)"
    by (subst round_to_double_eval [where e = 1])
       (simp_all add: pow2_def round_half_even_def Let_def)
  ultimately show ?thesis
    by (simp add: scaled_size_def float_div_def int_to_float_def float_mul_def)
qed

lemma scaled_size_4_by_2: "scaled_size 4 2 1 = Inr (Finite 8)"
proof -
  have "round_to_double 4 = Finite 4"
    by (subst round_to_double_eval [where e = 2])
       (simp_all add: pow2_def round_half_even_def Let_def)
  moreover have "round_to_double 2 = Finite 2"
    by (subst round_to_double_eval [where e = 1])
       (simp_all add: pow2_def round_half_even_def Let_def)
  moreover have "round_to_double 8 = Finite 8"
    by (subst round_to_double_eval [where e = 3])
       (simp_all add: pow2_def round_half_even_def Let_def)
  ultimately show ?thesis
    by (simp add: scaled_size_def float_div_def int_to_float_def float_mul_def)
qed

lemma scaled_size_0_7_by_10: "scaled_size spacing_0_7 10 1 = Inr (Finite 7)"
proof -
  have "round_to_double spacing_0_7 = Finite spacing_0_7"
    by (subst round_to_double_eval [where e = "- 1"])
       (simp_all add: pow2_def round_half_even_def Let_def spacing_0_7_def)
  moreover have "round_to_double 10 = Finite 10"
    by (subst round_to_double_eval [where e = 3])
       (simp_all add: pow2_def round_half_even_def Let_def)
  moreover have "round_to_double (spacing_0_7 * 10) = Finite 7"
    by (subst round_to_double_eval [where e = 2])
       (simp_all add: pow2_def round_half_even_def Let_def spacing_0_7_def)
  ultimately show ?thesis
    by (simp add: scaled_size_def float_div_def int_to_float_def float_mul_def)
qed

section \<open>The resampled size\<close>

lemma resampled_image_size_nth:
  "resampled_image_size sp sz ns = Inr res \<Longrightarrow> i < length res \<Longrightarrow>
     \<exists>x. scaled_size (sp ! i) (sz ! i) (ns ! i) = Inr x \<and> py_int x = Inr (res ! i)"
proof (induction sp sz ns arbitrary: res i rule: resampled_image_size.induct)
  case (1 spacing sps s szs new_s nss)
  then show ?case
    by (cases i) (auto split: sum.splits)
qed simp_all

text \<open>
  C1, as stated: the size computed for every dimension is
  round(original spacing / new spacing * original size). It fails for an image of size
  3 x 3 x 3 with spacing 1.25: 1.25 / 1.0 * 3 is the float 3.75, the cell computes 3 and
  rounding to the nearest integer gives 4.
\<close>

theorem resampled_size_is_not_rounded:
  "resampled_image_size [5 / 4, 5 / 4, 5 / 4] [3, 3, 3] (replicate 3 1) = Inr [3, 3, 3]
   \<and> spec_resampled_size (5 / 4) 3 1 = 4"
  by (simp add: scaled_size_5_4_by_3 py_int_def spec_resampled_size_def numeral_3_eq_3 round_def)

text \<open>
  C1, amended: for every dimension the computed size is the float
  original spacing / new spacing * original size, as the cell computes it with the
  rounding of float arithmetic, truncated toward zero: its floor when it is not negative,
  its ceiling otherwise.
\<close>

theorem resampled_size_truncates:
  assumes "resampled_image_size sp sz ns = Inr res" and "i < length res"
  shows "\<exists>p. scaled_size (sp ! i) (sz ! i) (ns ! i) = Inr (Finite p)
           \<and> res ! i = (if 0 \<le> p then \<lfloor>p\<rfloor> else \<lceil>p\<rceil>)"
proof -
  from resampled_image_size_nth [OF assms] obtain x where
    x: "scaled_size (sp ! i) (sz ! i) (ns ! i) = Inr x" and n: "py_int x = Inr (res ! i)"
    by blast
  from n obtain p where "x = Finite p" and "res ! i = (if 0 \<le> p then \<lfloor>p\<rfloor> else \<lceil>p\<rceil>)"
    by (cases x) (auto simp: py_int_def)
  with x show ?thesis by blast
qed

theorem resampled_size_truncates_witness:
  "resampled_image_size [spacing_0_7, 5 / 4, 4] [10, 3, 2] [1, 1, 1] = Inr [7, 3, 8]
   \<and> (0::nat) < length [7, 3, 8 :: int]
   \<and> (\<exists>p. scaled_size ([spacing_0_7, 5 / 4, 4] ! 0) ([10, 3, 2] ! 0) ([1, 1, 1] ! 0) = Inr (Finite p)
           \<and> [7, 3, 8] ! 0 = (if 0 \<le> p then \<lfloor>p\<rfloor> else \<lceil>p\<rceil>))"
proof -
  have h: "resampled_image_size [spacing_0_7, 5 / 4, 4] [10, 3, 2] [1, 1, 1] = Inr [7, 3, 8]"
    by (simp add: scaled_size_0_7_by_10 scaled_size_5_4_by_3 scaled_size_4_by_2 py_int_def)
  from resampled_size_truncates [OF h, of 0] h show ?thesis by simp
qed

text \<open>
  C9, as stated: resampled size * new spacing is at most original spacing * original
  size. It fails at the float nearest to 0.7 and size 10: the exact product is below 7,
  the float product is rounded up to 7.0, and the cell computes the size 7.
\<close>

theorem resampled_extent_exceeds_original:
  "resampled_image_size [spacing_0_7] [10] [1] = Inr [7]
   \<and> \<not> (real_of_int 7 * 1 \<le> spacing_0_7 * real_of_int 10)"
  by (simp add: scaled_size_0_7_by_10 py_int_def) (simp add: spacing_0_7_def)

text \<open>
  C9, amended: in a dimension with positive original spacing, size and new spacing,
  the resampled size is at most the float original spacing / new spacing * original
  size that the cell computes and truncates, which is not negative. With the new spacing
  1.0 of the cell, a spacing that is a float and a size that a float holds exactly, the
  resampled size times the new spacing is at most the exact original spacing * original
  size enlarged by the factor 1 + \<open>pow2 (- 53)\<close> of one rounding.
\<close>

theorem resampled_size_within_float_product:
  assumes "resampled_image_size sp sz ns = Inr res" and "i < length res"
    and "0 < sp ! i" and "0 < sz ! i" and "0 < ns ! i"
  shows "(\<exists>p. scaled_size (sp ! i) (sz ! i) (ns ! i) = Inr (Finite p)
           \<and> 0 \<le> p \<and> real_of_int (res ! i) \<le> p)
         \<and> (ns ! i = 1 \<longrightarrow> round_to_double (sp ! i) = Finite (sp ! i) \<longrightarrow>
              round_to_double (real_of_int (sz ! i)) = Finite (real_of_int (sz ! i)) \<longrightarrow>
              real_of_int (res ! i) * ns ! i
                \<le> sp ! i * real_of_int (sz ! i) * (1 + pow2 (- 53)))"
proof -
  from resampled_image_size_nth [OF assms(1,2)] obtain x where
    x: "scaled_size (sp ! i) (sz ! i) (ns ! i) = Inr x" and n: "py_int x = Inr (res ! i)"
    by blast
  from n obtain p where p: "x = Finite p" and r: "res ! i = (if 0 \<le> p then \<lfloor>p\<rfloor> else \<lceil>p\<rceil>)"
    by (cases x) (auto simp: py_int_def)
  from x obtain q f where
    q: "float_div (sp ! i) (ns ! i) = Inr q" and f: "int_to_float (sz ! i) = Inr f"
    and m: "x = float_mul q f"
    by (auto simp: scaled_size_def split: sum.splits)
  have "0 \<le> sp ! i / ns ! i" using assms(3,5) by simp
  from round_to_double_nonneg [OF this] q
  have q': "q = PlusInf \<or> (\<exists>a. q = Finite a \<and> 0 \<le> a)"
    by (auto simp: float_div_def split: if_splits)
  have "0 \<le> real_of_int (sz ! i)" using assms(4) by simp
  from round_to_double_nonneg [OF this] f
  have f': "0 \<le> f"
    by (auto simp: int_to_float_def split: double.splits)
  have nonneg: "0 \<le> p"
  proof -
    from q' show ?thesis
    proof
      assume "q = PlusInf"
      with m p show ?thesis by (simp add: float_mul_def split: if_splits)
    next
      assume "\<exists>a. q = Finite a \<and> 0 \<le> a"
      then obtain a where a: "q = Finite a" "0 \<le> a" by blast
      then have "0 \<le> a * f" using f' by simp
      from round_to_double_nonneg [OF this] m p a show ?thesis
        by (auto simp: float_mul_def)
    qed
  qed
  from nonneg r have le: "real_of_int (res ! i) \<le> p" by simp
  from x p nonneg le have first:
    "\<exists>p. scaled_size (sp ! i) (sz ! i) (ns ! i) = Inr (Finite p)
       \<and> 0 \<le> p \<and> real_of_int (res ! i) \<le> p"
    by blast
  have second: "real_of_int (res ! i) * ns ! i
                  \<le> sp ! i * real_of_int (sz ! i) * (1 + pow2 (- 53))"
    if one: "ns ! i = 1" and dsp: "round_to_double (sp ! i) = Finite (sp ! i)"
      and dsz: "round_to_double (real_of_int (sz ! i)) = Finite (real_of_int (sz ! i))"
  proof -
    from q one dsp have "q = Finite (sp ! i)" by (simp add: float_div_def)
    moreover from f dsz have "f = real_of_int (sz ! i)" by (simp add: int_to_float_def)
    ultimately have "round_to_double (sp ! i * real_of_int (sz ! i)) = Finite p"
      using m p by (simp add: float_mul_def)
    moreover have "0 < sp ! i * real_of_int (sz ! i)" using assms(3,4) by simp
    ultimately have "real_of_int \<lfloor>p\<rfloor> \<le> sp ! i * real_of_int (sz ! i) * (1 + pow2 (- 53))"
      using nonneg by (intro floor_of_rounded_product) assumption+
    with r nonneg one show ?thesis by simp
  qed
  from first second show ?thesis by blast
qed

theorem resampled_size_within_float_product_witness:
  "resampled_image_size [spacing_0_7] [10] [1] = Inr [7]
   \<and> (0::nat) < length [7 :: int]
   \<and> 0 < [spacing_0_7] ! 0 \<and> (0::int) < [10] ! 0 \<and> (0::real) < [1] ! 0
   \<and> [1 :: real] ! 0 = 1
   \<and> round_to_double ([spacing_0_7] ! 0) = Finite ([spacing_0_7] ! 0)
   \<and> round_to_double (real_of_int ([10] ! 0)) = Finite (real_of_int ([10] ! 0))
   \<and> (\<exists>p. scaled_size ([spacing_0_7] ! 0) ([10] ! 0) ([1] ! 0) = Inr (Finite p)
           \<and> 0 \<le> p \<and> real_of_int ([7] ! 0) \<le> p)
   \<and> real_of_int ([7] ! 0) * [1] ! 0
        \<le> [spacing_0_7] ! 0 * real_of_int ([10] ! 0) * (1 + pow2 (- 53))"
proof -
  have h: "resampled_image_size [spacing_0_7] [10] [1] = Inr [7]"
    by (simp add: scaled_size_0_7_by_10 py_int_def)
  have pos: "0 < spacing_0_7" by (simp add: spacing_0_7_def)
  from resampled_size_within_float_product [OF h, of 0] h pos
    spacing_0_7_is_double ten_is_double
  show ?thesis by simp
qed

section \<open>The Marschner-Lobb image and the interpolators shown on it\<close>

lemma length_grid_indices: "length (grid_indices ns) = prod_list ns"
proof (induction ns)
  case Nil
  show ?case by simp
next
  case (Cons n ns)
  have "length (concat (map (\<lambda>rest. map (\<lambda>i. i # rest) [0..<n]) xs)) = length xs * n"
    for xs :: "nat list list"
    by (induction xs) simp_all
  with Cons show ?case by (simp add: mult.commute)
qed

lemma img_add_bounds:
  assumes "\<forall>x\<in>set a. la \<le> x \<and> x \<le> ua" and "\<forall>y\<in>set b. lb \<le> y \<and> y \<le> ub"
  shows "\<forall>v\<in>set (img_add a b). la + lb \<le> v \<and> v \<le> ua + ub"
proof
  fix v assume "v \<in> set (img_add a b)"
  then obtain x y where xy: "(x, y) \<in> set (zip a b)" and v: "v = x + y"
    by (auto simp: img_add_def)
  from xy have "x \<in> set a" and "y \<in> set b"
    by (auto dest: set_zip_leftD set_zip_rightD)
  with assms v show "la + lb \<le> v \<and> v \<le> ua + ub" by fastforce
qed

lemma length_img_add: "length (img_add a b) = min (length a) (length b)"
  by (simp add: img_add_def)

text \<open>
  C10: for every size of at least 1 and every alpha that is not negative,
  \<open>marschner_lobb\<close> returns an image (of size x size x size pixels), and each of its pixel values
  lies between 0 and 1, in exact real arithmetic.
\<close>

theorem marschner_lobb_in_unit_interval:
  assumes "1 \<le> sz" and "0 \<le> alpha"
  shows "\<exists>img. marschner_lobb sz alpha f_M = Inr img \<and> length img = sz ^ 3
           \<and> (\<forall>v\<in>set img. 0 \<le> v \<and> v \<le> 1)"
proof -
  define pts where
    "pts = PhysicalPointSource (replicate 3 sz) (replicate 3 (- 1)) (replicate 3 (2 / real sz))"
  define imgz where "imgz = VectorIndexSelectionCast pts 2"
  define r where
    "r = map sqrt (img_add (img_pow2 (VectorIndexSelectionCast pts 0))
                           (img_pow2 (VectorIndexSelectionCast pts 1)))"
  define a where "a = map (\<lambda>v. 1 - v) (map sin (map (\<lambda>v. (pi / 2) * v) imgz))"
  define b where "b = map (\<lambda>v. alpha * v)
      (map (\<lambda>v. 1 + v) (map cos (map (\<lambda>v. (2 * pi * f_M) * v) (map cos (map (\<lambda>v. (pi / 2) * v) r)))))"
  define img where "img = map (\<lambda>v. v / (2 * (1 + alpha))) (img_add a b)"
  have ml: "marschner_lobb sz alpha f_M = Inr img"
    unfolding marschner_lobb_def Let_def img_def a_def b_def r_def imgz_def pts_def
    using assms(1) by simp
  have "length pts = prod_list (replicate 3 sz)"
    by (simp only: pts_def PhysicalPointSource_def length_map length_grid_indices)
  also have "\<dots> = sz ^ 3"
    by (simp add: numeral_3_eq_3 power3_eq_cube)
  finally have lp: "length pts = sz ^ 3" .
  have len: "length img = sz ^ 3"
    by (simp add: img_def length_img_add a_def b_def r_def imgz_def
        VectorIndexSelectionCast_def img_pow2_def lp)
  have ba: "\<forall>x\<in>set a. 0 \<le> x \<and> x \<le> 2"
  proof
    fix x assume "x \<in> set a"
    then obtain t where "x = 1 - sin t" by (auto simp: a_def)
    moreover have "- 1 \<le> sin t" "sin t \<le> 1" by simp_all
    ultimately show "0 \<le> x \<and> x \<le> 2" by linarith
  qed
  have bb: "\<forall>y\<in>set b. 0 \<le> y \<and> y \<le> 2 * alpha"
  proof
    fix y assume "y \<in> set b"
    then obtain t where y: "y = alpha * (1 + cos t)" by (auto simp: b_def)
    have "- 1 \<le> cos t" "cos t \<le> 1" by simp_all
    then have c: "0 \<le> 1 + cos t" "1 + cos t \<le> 2" by linarith+
    have "0 \<le> alpha * (1 + cos t)" using assms(2) c(1) by simp
    moreover have "alpha * (1 + cos t) \<le> alpha * 2"
      using assms(2) c(2) by (intro mult_left_mono) simp_all
    ultimately show "0 \<le> y \<and> y \<le> 2 * alpha" using y by simp
  qed
  have bs: "\<forall>v\<in>set (img_add a b). 0 + 0 \<le> v \<and> v \<le> 2 + 2 * alpha"
    by (rule img_add_bounds [OF ba bb])
  have "\<forall>v\<in>set img. 0 \<le> v \<and> v \<le> 1"
  proof
    fix v assume "v \<in> set img"
    then obtain u where u: "u \<in> set (img_add a b)" and v: "v = u / (2 * (1 + alpha))"
      by (auto simp: img_def)
    from bs u have "0 \<le> u" "u \<le> 2 * (1 + alpha)" by (auto simp: algebra_simps)
    moreover have "0 < 2 * (1 + alpha)" using assms(2) by simp
    ultimately show "0 \<le> v \<and> v \<le> 1" using v by (simp add: divide_le_eq)
  qed
  with ml len show ?thesis by blast
qed

theorem marschner_lobb_in_unit_interval_witness:
  "(1::nat) \<le> 2 \<and> (0::real) \<le> 1 / 4 \<and>
   (\<exists>img. marschner_lobb 2 (1 / 4) 6 = Inr img \<and> length img = 2 ^ 3
            \<and> (\<forall>v\<in>set img. 0 \<le> v \<and> v \<le> 1))"
  using marschner_lobb_in_unit_interval [of 2 "1 / 4" 6] by simp

text \<open>
  C6, as stated: every interpolator shown on the Marschner-Lobb slice is nearest-neighbor,
  linear, B-spline or a windowed sinc. It fails at the fourth call of the cell, which
  shows the Gaussian interpolator.
\<close>

theorem gaussian_is_demonstrated:
  "(sitkGaussian, ''Gaussian'') \<in> set expand_demonstration
   \<and> \<not> spec_named_interpolator sitkGaussian"
  by (simp add: expand_demonstration_def)

text \<open>
  C6, amended: the interpolators shown on the Marschner-Lobb slice are, in order,
  nearest-neighbor, linear, B-spline, Gaussian and the five windowed-sinc variants; the
  Gaussian is the only one outside the spec's list.
\<close>

theorem demonstrated_interpolators:
  "map fst expand_demonstration =
     [sitkNearestNeighbor, sitkLinear, sitkBSpline, sitkGaussian, sitkHammingWindowedSinc,
      sitkBlackmanWindowedSinc, sitkCosineWindowedSinc, sitkWelchWindowedSinc,
      sitkLanczosWindowedSinc]
   \<and> filter (\<lambda>i. \<not> spec_named_interpolator i) (map fst expand_demonstration) = [sitkGaussian]"
  by (simp add: expand_demonstration_def)

section \<open>The registration function\<close>

lemma register_images_run:
  "register_images L fixed_image moving_image t interp w =
     (case lib_optimize L (configured_method interp (length (heap w))) fixed_image moving_image (heap w ! t) of
        Inl e \<Rightarrow>
          (Inl e, w\<lparr>heap := heap w @ [heap w ! t],
                    trace := trace w @ [(EvRegistrationExecute interp moving_image (heap w ! t), Some e)]\<rparr>)
      | Inr (final, stop) \<Rightarrow>
          (Inr (length (heap w), stop),
           w\<lparr>heap := heap w @ [final],
             trace := trace w @ [(EvRegistrationExecute interp moving_image (heap w ! t), None)]\<rparr>))"
  by (simp add: register_images_def Let_def then_do_def SetInitialTransform_def Execute_def
      get_transform_def new_transform_def put_transform_def ret_def lib_call_def outcome_def
      ImageRegistrationMethod_def SetMetricAsMattesMutualInformation_def
      SetMetricSamplingStrategy_def SetMetricSamplingPercentage_def SetInterpolator_def
      SetOptimizerAsGradientDescent_def SetOptimizerScalesFromPhysicalShift_def
      GetOptimizerStopConditionDescription_def configured_method_def
      split: sum.splits prod.splits)

text \<open>
  C2: \<open>register_images\<close> configures one registration method (Mattes mutual information
  with 50 histogram bins, regular sampling of 1 percent, the caller's interpolator,
  gradient descent, a copy of the initial transform), runs the optimizer on it once, and
  returns the pair of the final transform and the optimizer's stop condition; when the
  optimizer raises, so does the function.
\<close>

theorem register_images_configures_and_executes_once:
  "(let v = heap w ! t;
        r = length (heap w);
        rm = \<lparr>rm_metric = Some (MattesMutualInformation 50), rm_sampling_strategy = REGULAR,
              rm_sampling_percentage = 1 / 100, rm_interpolator = interp,
              rm_optimizer = Some (GradientDescent 1 1000), rm_scales = PhysicalShift,
              rm_initial_transform = Some r, rm_stop_condition = []\<rparr>;
        answer = lib_optimize L rm fixed_image moving_image v;
        run = register_images L fixed_image moving_image t interp w
    in fst run = (case answer of Inl e \<Rightarrow> Inl e | Inr (final, stop) \<Rightarrow> Inr (r, stop))
       \<and> heap (snd run) = heap w @ [case answer of Inl e \<Rightarrow> v | Inr (final, stop) \<Rightarrow> final]
       \<and> trace (snd run) = trace w @ [(EvRegistrationExecute interp moving_image v, outcome answer)])"
  by (simp add: Let_def register_images_run configured_method_def outcome_def
      split: sum.splits prod.splits)

text \<open>
  C8: every call of \<open>register_images\<close> leaves the caller's initial transform as it
  was, so two registrations run one after the other on the same initial transform, as
  the two registration cells do, both start the optimizer from the same parameters.
\<close>

theorem initial_transform_unchanged:
  assumes "t < length (heap w)"
  shows "(let w1 = snd (register_images L fixed1 moving1 t interp1 w);
              w2 = snd (register_images L fixed2 moving2 t interp2 w1)
          in heap w1 ! t = heap w ! t \<and> heap w2 ! t = heap w ! t
             \<and> map fst (calls_made w w2) =
                 [EvRegistrationExecute interp1 moving1 (heap w ! t),
                  EvRegistrationExecute interp2 moving2 (heap w ! t)])"
  using assms
  by (simp add: Let_def register_images_run calls_made_def nth_append
      split: sum.splits prod.splits)

theorem initial_transform_unchanged_witness:
  "(0::nat) < length (heap \<lparr>heap = [Euler3DTransform], trace = []\<rparr>)
   \<and> heap (snd (register_images demo_library (demo_image sitkFloat32) (demo_image sitkFloat32) 0
                  sitkLinear \<lparr>heap = [Euler3DTransform], trace = []\<rparr>))
      = [Euler3DTransform, Euler3DTransform\<lparr>tf_translation := [1, 2, 3]\<rparr>]"
proof -
  have "(0::nat) < length (heap \<lparr>heap = [Euler3DTransform], trace = []\<rparr>)" by simp
  from initial_transform_unchanged [OF this, where L = demo_library
      and ?fixed1.0 = "demo_image sitkFloat32" and ?moving1.0 = "demo_image sitkFloat32"
      and ?interp1.0 = sitkLinear]
  show ?thesis
    by (simp add: register_images_run demo_library_def)
qed

section \<open>Failures of the library\<close>

lemma quiet_simps [simp]:
  "quiet []" "quiet (a @ b) \<longleftrightarrow> quiet a \<and> quiet b" "quiet [(ev, out)] \<longleftrightarrow> out = None"
  by (simp_all add: quiet_def)

lemma quiet_outcomes: "quiet new \<Longrightarrow> map snd new = replicate (length new) None"
  by (induction new) (simp_all add: quiet_def)

lemma fails_last_propagated:
  assumes "fails_last own p"
  shows "propagated own w (p w)"
proof -
  from assms obtain new where tr: "trace (snd (p w)) = trace w @ new"
    and c: "case fst (p w) of
           Inr _ \<Rightarrow> quiet new
         | Inl e \<Rightarrow> (\<exists>pre ev. new = pre @ [(ev, Some e)] \<and> quiet pre)
                    \<or> (e \<in> set own \<and> quiet new)"
    unfolding fails_last_def by blast
  have cm: "calls_made w (snd (p w)) = new" by (simp add: calls_made_def tr)
  show ?thesis
  proof (cases "fst (p w)")
    case (Inr x)
    with c tr cm show ?thesis by (simp add: propagated_def Let_def quiet_outcomes)
  next
    case (Inl e)
    with c consider pre ev where "new = pre @ [(ev, Some e)]" "quiet pre"
      | "e \<in> set own" "quiet new" by auto
    then show ?thesis
    proof cases
      case 1
      then show ?thesis using Inl tr cm by (simp add: propagated_def Let_def quiet_outcomes)
    next
      case 2
      then show ?thesis using Inl tr cm by (simp add: propagated_def Let_def quiet_outcomes)
    qed
  qed
qed

lemma fails_last_ret: "fails_last own (ret x)"
  by (simp add: fails_last_def ret_def)

lemma fails_last_raise: "e \<in> set own \<Longrightarrow> fails_last own (raise e)"
  by (simp add: fails_last_def raise_def)

lemma fails_last_lib_call: "fails_last own (lib_call ev r)"
  by (cases r) (auto simp: fails_last_def lib_call_def outcome_def)

lemma fails_last_print: "fails_last own (print ps)"
  by (simp add: print_def fails_last_lib_call)

lemma fails_last_heap:
  "fails_last own (new_transform t)" "fails_last own (get_transform r)"
  "fails_last own (put_transform r t)"
  by (simp_all add: fails_last_def new_transform_def get_transform_def put_transform_def)

lemma fails_last_then_do:
  assumes m: "fails_last own m" and f: "\<And>x. fails_last own (f x)"
  shows "fails_last own (then_do m f)"
  unfolding fails_last_def
proof
  fix w
  obtain r1 w1 where mw: "m w = (r1, w1)" by (cases "m w")
  from m obtain new1 where t1: "trace w1 = trace w @ new1"
    and c1: "case r1 of
           Inr _ \<Rightarrow> quiet new1
         | Inl e \<Rightarrow> (\<exists>pre ev. new1 = pre @ [(ev, Some e)] \<and> quiet pre)
                    \<or> (e \<in> set own \<and> quiet new1)"
  proof -
    from m have "\<exists>new. trace (snd (m w)) = trace w @ new \<and>
        (case fst (m w) of
           Inr _ \<Rightarrow> quiet new
         | Inl e \<Rightarrow> (\<exists>pre ev. new = pre @ [(ev, Some e)] \<and> quiet pre)
                    \<or> (e \<in> set own \<and> quiet new))"
      unfolding fails_last_def by (rule spec)
    then show ?thesis using that by (auto simp: mw)
  qed
  show "\<exists>new. trace (snd (then_do m f w)) = trace w @ new \<and>
        (case fst (then_do m f w) of
           Inr _ \<Rightarrow> quiet new
         | Inl e \<Rightarrow> (\<exists>pre ev. new = pre @ [(ev, Some e)] \<and> quiet pre)
                    \<or> (e \<in> set own \<and> quiet new))"
  proof (cases r1)
    case (Inl e)
    then have "then_do m f w = (Inl e, w1)" by (simp add: then_do_def mw)
    with t1 c1 Inl show ?thesis by auto
  next
    case (Inr x)
    then have td: "then_do m f w = f x w1" by (simp add: then_do_def mw)
    from c1 Inr have q1: "quiet new1" by simp
    from f [of x] obtain new2 where t2: "trace (snd (f x w1)) = trace w1 @ new2"
      and c2: "case fst (f x w1) of
           Inr _ \<Rightarrow> quiet new2
         | Inl e \<Rightarrow> (\<exists>pre ev. new2 = pre @ [(ev, Some e)] \<and> quiet pre)
                    \<or> (e \<in> set own \<and> quiet new2)"
      unfolding fails_last_def by blast
    show ?thesis
    proof (cases "fst (f x w1)")
      case (Inr y)
      with c2 q1 t1 t2 td show ?thesis by (intro exI [of _ "new1 @ new2"]) simp
    next
      case (Inl e)
      with c2 consider pre ev where "new2 = pre @ [(ev, Some e)]" "quiet pre"
        | "e \<in> set own" "quiet new2" by auto
      then show ?thesis
      proof cases
        case 1
        have "(\<exists>pre' ev'. new1 @ new2 = pre' @ [(ev', Some e)] \<and> quiet pre')"
          using 1 q1 by (intro exI [of _ "new1 @ pre"] exI [of _ ev]) simp
        then show ?thesis using Inl t1 t2 td by (intro exI [of _ "new1 @ new2"]) simp
      next
        case 2
        then show ?thesis using Inl q1 t1 t2 td by (intro exI [of _ "new1 @ new2"]) simp
      qed
    qed
  qed
qed

lemma fails_last_map_prog: "(\<And>x. fails_last own (f x)) \<Longrightarrow> fails_last own (map_prog f xs)"
  by (induction xs) (simp_all add: fails_last_ret fails_last_then_do)

lemma fails_last_py_index: "IndexError \<in> set own \<Longrightarrow> fails_last own (py_index xs i)"
  by (simp add: py_index_def fails_last_raise fails_last_ret)

lemma fails_last_case_prod:
  "(\<And>a b. fails_last own (f a b)) \<Longrightarrow> fails_last own (case p of (a, b) \<Rightarrow> f a b)"
  by (cases p) simp

lemma fails_last_checked: "fails_last own (checked L c x)"
  by (simp add: checked_def fails_last_lib_call)

lemma fails_last_data_loading_cell: "fails_last [IndexError] (data_loading_cell L)"
  unfolding data_loading_cell_def Let_def fdata_def ReadImage_def load_RIRE_ground_truth_def
    absolute_orientation_m_def generate_random_pointset_def show_display_def
    SetMatrix_def SetTranslation_def
  by (intro fails_last_then_do fails_last_case_prod fails_last_lib_call fails_last_ret
        fails_last_map_prog fails_last_py_index fails_last_checked)
     (simp_all add: TransformPoint_def fails_last_lib_call)

lemma fails_last_register_images: "fails_last [] (register_images L fixed_image moving_image t interp)"
  unfolding fails_last_def
proof
  fix w
  show "\<exists>new. trace (snd (register_images L fixed_image moving_image t interp w)) = trace w @ new \<and>
        (case fst (register_images L fixed_image moving_image t interp w) of
           Inr _ \<Rightarrow> quiet new
         | Inl e \<Rightarrow> (\<exists>pre ev. new = pre @ [(ev, Some e)] \<and> quiet pre)
                    \<or> (e \<in> set [] \<and> quiet new))"
    by (cases "lib_optimize L (configured_method interp (length (heap w))) fixed_image moving_image (heap w ! t)")
       (auto simp: register_images_run)
qed

text \<open>
  With the new spacing 1.0 of the resampling cell, the size computation raises only from
  the conversion of a size to a float and from \<open>int\<close>.
\<close>

lemma py_int_raises: "py_int x = Inl e \<Longrightarrow> e = OverflowError \<or> e = ValueError"
  by (cases x) (auto simp: py_int_def)

lemma scaled_size_unit_raises: "scaled_size spacing s 1 = Inl e \<Longrightarrow> e = OverflowError"
  by (auto simp: scaled_size_def float_div_def int_to_float_def split: sum.splits double.splits)

lemma resampled_image_size_unit_raises:
  "resampled_image_size sp sz (replicate n 1) = Inl e \<Longrightarrow> e = OverflowError \<or> e = ValueError"
proof (induction n arbitrary: sp sz)
  case 0
  then show ?case by (cases sp; cases sz) simp_all
next
  case (Suc n)
  show ?case
  proof (cases sp)
    case Nil
    with Suc.prems show ?thesis by simp
  next
    case sp: (Cons spacing sps)
    show ?thesis
    proof (cases sz)
      case Nil
      with Suc.prems show ?thesis by (simp add: sp)
    next
      case (Cons s szs)
      with Suc.prems sp show ?thesis
        by (auto split: sum.splits dest: scaled_size_unit_raises py_int_raises Suc.IH)
    qed
  qed
qed

lemma fails_last_lift: "(\<And>e. r = Inl e \<Longrightarrow> e \<in> set own) \<Longrightarrow> fails_last own (lift r)"
  by (cases r) (auto simp: fails_last_def lift_def)

lemma fails_last_resampling_cell:
  "fails_last [OverflowError, ValueError] (resampling_cell L moving_image)"
proof -
  have "fails_last [OverflowError, ValueError]
          (lift (resampled_image_size (img_spacing moving_image) (img_size moving_image)
                   (replicate (GetDimension moving_image) 1)))"
    by (rule fails_last_lift) (auto dest: resampled_image_size_unit_raises)
  then show ?thesis
    unfolding resampling_cell_def Let_def ResampleExecute_def Image_def SetSpacing_def
      SetOrigin_def SetDirection_def memory_ratio_def
    by (intro fails_last_then_do fails_last_lib_call fails_last_ret fails_last_print
        fails_last_checked)
qed

text \<open>
  C5: in \<open>register_images\<close>, the data-loading cell and the resampling cell, a call into
  the library that raises ends the run with the exception it raised: no call is made
  after it, and a run that returns made no call that raised. The exceptions that are
  the code's own are the \<open>IndexError\<close> of \<open>GetSize()[2]\<close> in the data-loading cell and
  the \<open>OverflowError\<close> and \<open>ValueError\<close> of the size computation in the resampling cell.
\<close>

theorem library_failures_propagate:
  "propagated [] w (register_images L fixed_image moving_image t interp w)
   \<and> propagated [IndexError] w (data_loading_cell L w)
   \<and> propagated [OverflowError, ValueError] w (resampling_cell L moving_image w)"
  by (intro conjI fails_last_propagated fails_last_register_images
      fails_last_data_loading_cell fails_last_resampling_cell)

lemma data_loading_missing_file:
  "data_loading_cell missing_file_library empty_world =
     (Inl (RuntimeError ''file not found''),
      \<lparr>heap = [], trace = [(EvFetchData ''training_001_ct.mha'', Some (RuntimeError ''file not found''))]\<rparr>)"
  by (simp add: data_loading_cell_def then_do_def fdata_def lib_call_def outcome_def
      missing_file_library_def demo_library_def empty_world_def)

theorem library_failures_propagate_witness:
  "fst (data_loading_cell missing_file_library empty_world) = Inl (RuntimeError ''file not found'')
   \<and> propagated [IndexError] empty_world (data_loading_cell missing_file_library empty_world)
   \<and> map snd (calls_made empty_world (snd (data_loading_cell missing_file_library empty_world)))
       = [Some (RuntimeError ''file not found'')]"
proof -
  have "propagated [IndexError] empty_world (data_loading_cell missing_file_library empty_world)"
    by (rule library_failures_propagate [THEN conjunct2, THEN conjunct1])
  then show ?thesis
    unfolding data_loading_missing_file by (simp add: calls_made_def empty_world_def)
qed

text \<open>
  Two runs that end in an exception: at spacing \<open>2 ^ 1023\<close> and size 2 the float product
  is an infinity, and \<open>int\<close> raises; a matrix that the toolkit refuses ends the
  data-loading cell at \<open>SetMatrix\<close>.
\<close>

lemma resampled_image_size_overflows:
  "resampled_image_size [2 ^ 1023] [2] [1] = Inl OverflowError"
proof -
  have "round_to_double (2 ^ 1023) = Finite (2 ^ 1023)"
    by (subst round_to_double_eval [where e = 1023])
       (simp_all add: pow2_def round_half_even_def Let_def)
  moreover have "round_to_double 2 = Finite 2"
    by (subst round_to_double_eval [where e = 1])
       (simp_all add: pow2_def round_half_even_def Let_def)
  moreover have "round_to_double (2 ^ 1023 * 2) = PlusInf"
    by (subst round_to_double_eval [where e = 1024])
       (simp_all add: pow2_def round_half_even_def Let_def)
  ultimately show ?thesis
    by (simp add: scaled_size_def float_div_def int_to_float_def float_mul_def py_int_def)
qed

lemma data_loading_refused_matrix:
  "data_loading_cell refusing_library empty_world =
     (Inl (RuntimeError ''matrix is not orthogonal''),
      \<lparr>heap = [],
       trace = quietly
           [EvFetchData ''training_001_ct.mha'',
            EvReadImage ''cache/training_001_ct.mha'' sitkFloat32,
            EvFetchData ''training_001_mr_T1.mha'',
            EvReadImage ''cache/training_001_mr_T1.mha'' sitkFloat32,
            EvFetchData ''ct_T1.standard'', EvLoadGroundTruth ''cache/ct_T1.standard'',
            EvAbsoluteOrientation]
         @ [(EvToolkit ''Euler3DTransform.SetMatrix'',
             Some (RuntimeError ''matrix is not orthogonal''))]\<rparr>)"
  by (simp add: data_loading_cell_def then_do_def fdata_def ReadImage_def
      load_RIRE_ground_truth_def absolute_orientation_m_def SetMatrix_def checked_def
      lib_call_def outcome_def refusing_library_def demo_library_def empty_world_def quietly_def)

section \<open>Runs in which nothing raises\<close>

lemma then_do_Inr_iff:
  "then_do m f w = (Inr y, w'') \<longleftrightarrow> (\<exists>x w'. m w = (Inr x, w') \<and> f x w' = (Inr y, w''))"
  by (auto simp: then_do_def split: prod.splits sum.splits)

lemma lib_call_Inr_iff:
  "lib_call ev r w = (Inr x, w') \<longleftrightarrow> r = Inr x \<and> w' = w\<lparr>trace := trace w @ [(ev, None)]\<rparr>"
  by (cases r) (auto simp: lib_call_def outcome_def)

lemma checked_Inr_iff:
  "checked L c x w = (Inr y, w') \<longleftrightarrow>
     lib_raises L c = None \<and> y = x \<and> w' = w\<lparr>trace := trace w @ [(EvToolkit (method_name c), None)]\<rparr>"
  by (cases "lib_raises L c") (auto simp: checked_def lib_call_def outcome_def)

lemma ret_Inr_iff: "ret x w = (Inr y, w') \<longleftrightarrow> y = x \<and> w' = w"
  by (auto simp: ret_def)

lemma lift_Inr_iff: "lift r w = (Inr y, w') \<longleftrightarrow> r = Inr y \<and> w' = w"
  by (auto simp: lift_def)

lemma py_index_Inr_iff: "py_index xs i w = (Inr y, w') \<longleftrightarrow> i < length xs \<and> y = xs ! i \<and> w' = w"
  by (auto simp: py_index_def ret_def raise_def)

lemma get_trace_iff: "get_trace w = (Inr tr, w') \<longleftrightarrow> tr = trace w \<and> w' = w"
  by (auto simp: get_trace_def)

lemma quietly_simps [simp]:
  "quietly [] = []" "quietly (ev # evs) = (ev, None) # quietly evs"
  "quietly (xs @ ys) = quietly xs @ quietly ys" "map fst (quietly evs) = evs"
  by (simp_all add: quietly_def comp_def)

lemma map_prog_lib_call_success:
  assumes f: "\<And>x. f x = lib_call (ev x) (r x)"
  shows "map_prog f xs w = (Inr ys, w') \<Longrightarrow>
     w' = w\<lparr>trace := trace w @ quietly (map ev xs)\<rparr> \<and> map r xs = map Inr ys"
proof (induction xs arbitrary: ys w)
  case Nil
  then show ?case by (simp add: ret_Inr_iff)
next
  case (Cons x xs)
  from Cons.prems obtain y w1 ys' where
    y: "f x w = (Inr y, w1)" and
    rest: "map_prog f xs w1 = (Inr ys', w')" and ys: "ys = y # ys'"
    by (auto simp: then_do_Inr_iff ret_Inr_iff)
  from y have w1: "w1 = w\<lparr>trace := trace w @ [(ev x, None)]\<rparr>" and rx: "r x = Inr y"
    by (simp_all add: f lib_call_Inr_iff)
  from Cons.IH [OF rest] show ?case by (simp add: w1 rx ys)
qed

lemma timeit_r1_n1_success:
  assumes "timeit_r1_n1 L body w = (Inr x, w')"
  shows "\<exists>w1. body w = (Inr x, w1)
      \<and> w' = w1\<lparr>trace := trace w1
                 @ quietly [EvPrint [ShowTiming (lib_elapsed L (drop (length (trace w)) (trace w1)))]]\<rparr>"
  using assms
  by (auto simp: timeit_r1_n1_def then_do_Inr_iff get_trace_iff print_def lib_call_Inr_iff
      ret_Inr_iff)

lemma first_cell_success:
  assumes "first_cell L w = (Inr u, w')"
  shows "w' = w\<lparr>trace := trace w @ quietly (map EvFirstCell first_cell_steps)\<rparr>"
proof -
  from assms obtain ys where "map_prog (run_step L) first_cell_steps w = (Inr ys, w')"
    by (auto simp: first_cell_def then_do_Inr_iff ret_Inr_iff)
  from map_prog_lib_call_success [where f = "run_step L" and ev = EvFirstCell, OF _ this]
  show ?thesis by (simp add: run_step_def)
qed

lemma data_loading_cell_success:
  assumes "data_loading_cell L w = (Inr (fixed_image, moving_image, fixed_points, moving_points), w')"
  shows "\<exists>p1 p2 p3.
      loading_answers L p1 p2 p3 fixed_image moving_image fixed_points moving_points
      \<and> w' = w\<lparr>trace := trace w @
                   quietly (loading_events p1 p2 p3 fixed_image moving_image fixed_points)\<rparr>"
proof -
  from assms obtain p1 w1 p2 w2 p3 w3 ffp mfp w4 R t w5 rt1 w6 rt2 w7 w8 w9 w10 where
    f1: "fdata L ''training_001_ct.mha'' w = (Inr p1, w1)"
    and r1: "ReadImage L p1 sitkFloat32 w1 = (Inr fixed_image, w2)"
    and f2: "fdata L ''training_001_mr_T1.mha'' w2 = (Inr p2, w3)"
    and r2: "ReadImage L p2 sitkFloat32 w3 = (Inr moving_image, w4)"
    and f3: "fdata L ''ct_T1.standard'' w4 = (Inr p3, w5)"
    and gt: "load_RIRE_ground_truth L p3 w5 = (Inr (ffp, mfp), w6)"
    and ao: "absolute_orientation_m L ffp mfp w6 = (Inr (R, t), w7)"
    and sm: "SetMatrix L R Euler3DTransform w7 = (Inr rt1, w8)"
    and st: "SetTranslation L t rt1 w8 = (Inr rt2, w9)"
    and gp: "generate_random_pointset L fixed_image 1000 w9 = (Inr fixed_points, w10)"
    and tail: "then_do (map_prog (TransformPoint L rt2) fixed_points) (\<lambda>moving_points'.
       then_do (py_index (img_size fixed_image) 2) (\<lambda>fixed_depth.
       then_do (py_index (img_size moving_image) 2) (\<lambda>moving_depth.
       then_do (show_display L (Interact (0, fixed_depth - 1) (0, moving_depth - 1)
                                  fixed_image moving_image)) (\<lambda>_.
       ret (fixed_image, moving_image, fixed_points, moving_points'))))) w10
         = (Inr (fixed_image, moving_image, fixed_points, moving_points), w')"
    unfolding data_loading_cell_def
    by (auto simp: then_do_Inr_iff ret_Inr_iff split: prod.splits)
  from tail obtain w11 where
    tp: "map_prog (TransformPoint L rt2) fixed_points w10 = (Inr moving_points, w11)"
    and disp: "show_display L (Interact (0, img_size fixed_image ! 2 - 1)
                 (0, img_size moving_image ! 2 - 1) fixed_image moving_image) w11 = (Inr (), w')"
    by (auto simp: then_do_Inr_iff ret_Inr_iff py_index_Inr_iff)
  from sm st have rt2: "rt2 = Euler3DTransform\<lparr>tf_matrix := R, tf_translation := t\<rparr>"
    by (auto simp: SetMatrix_def SetTranslation_def checked_Inr_iff)
  from map_prog_lib_call_success [where f = "TransformPoint L rt2" and ev = EvTransformPoint
      and r = "lib_TransformPoint L rt2", OF _ tp]
  have w11: "w11 = w10\<lparr>trace := trace w10 @ quietly (map EvTransformPoint fixed_points)\<rparr>"
    and mp: "map (lib_TransformPoint L rt2) fixed_points = map Inr moving_points"
    by (simp_all add: TransformPoint_def)
  have answers: "loading_answers L p1 p2 p3 fixed_image moving_image fixed_points moving_points"
    unfolding loading_answers_def
    using f1 r1 f2 r2 f3 gt ao gp mp rt2
    by (intro exI [of _ ffp] exI [of _ mfp] exI [of _ R] exI [of _ t])
       (simp add: fdata_def ReadImage_def load_RIRE_ground_truth_def absolute_orientation_m_def
          generate_random_pointset_def lib_call_Inr_iff)
  have "w' = w\<lparr>trace := trace w @
                   quietly (loading_events p1 p2 p3 fixed_image moving_image fixed_points)\<rparr>"
    using f1 r1 f2 r2 f3 gt ao sm st gp disp
    by (simp add: fdata_def ReadImage_def load_RIRE_ground_truth_def absolute_orientation_m_def
          generate_random_pointset_def show_display_def SetMatrix_def SetTranslation_def
          checked_Inr_iff lib_call_Inr_iff w11 loading_events_def)
  with answers show ?thesis by blast
qed

lemma resampling_cell_success:
  assumes "resampling_cell L moving_image w = (Inr resampled, w')"
  shows "\<exists>ratio.
      resampling_answers L moving_image resampled ratio
      \<and> img_spacing resampled = replicate (GetDimension moving_image) 1
      \<and> img_origin resampled = img_origin moving_image
      \<and> img_direction resampled = img_direction moving_image
      \<and> img_pixel_id resampled = img_pixel_id moving_image
      \<and> w' = w\<lparr>trace := trace w @ quietly (resampling_events moving_image resampled ratio)\<rparr>"
  using assms
  unfolding resampling_cell_def Let_def ResampleExecute_def print_def Image_def SetSpacing_def
    SetOrigin_def SetDirection_def memory_ratio_def resampling_answers_def
  by (auto simp: then_do_Inr_iff lib_call_Inr_iff checked_Inr_iff ret_Inr_iff lift_Inr_iff
      resampling_events_def blank_image_def ResampleImageFilter_def SetReferenceImage_def)

lemma initial_alignment_cell_success:
  assumes "initial_alignment_cell L fixed_image moving_image w = (Inr t, w')"
  shows "\<exists>v0. lib_CenteredTransformInitializer L fixed_image moving_image Euler3DTransform GEOMETRY
               = Inr v0
      \<and> t = length (heap w) \<and> heap w' = heap w @ [v0]
      \<and> trace w' = trace w @ quietly [EvCenteredTransformInitializer]"
  using assms
  unfolding initial_alignment_cell_def CenteredTransformInitializer_def
  by (auto simp: then_do_Inr_iff lib_call_Inr_iff new_transform_def)

lemma register_images_success:
  assumes "register_images L fixed_image moving_image t interp w = (Inr (r, stop), w')"
  shows "\<exists>final.
      lib_optimize L (configured_method interp (length (heap w))) fixed_image moving_image
        (heap w ! t) = Inr (final, stop)
      \<and> r = length (heap w) \<and> heap w' = heap w @ [final]
      \<and> trace w' = trace w @ quietly [EvRegistrationExecute interp moving_image (heap w ! t)]"
  using assms by (auto simp: register_images_run split: sum.splits)

lemma registration_errors_success:
  assumes "registration_errors L tx ps qs w = (Inr stats, w')"
  shows "lib_registration_errors L (heap w ! tx) ps qs = Inr stats
      \<and> w' = w\<lparr>trace := trace w @ quietly [EvRegistrationErrors]\<rparr>"
  using assms
  by (auto simp: registration_errors_def then_do_Inr_iff lib_call_Inr_iff get_transform_def)

lemma registration_body_success:
  assumes "then_do (register_images L fixed_image moving t interp)
         (\<lambda>(final_transform, optimizer_termination).
       then_do (registration_errors L final_transform fixed_points moving_points)
         (\<lambda>(final_errors_mean, final_errors_std, _, final_errors_max, errors).
       then_do (print [ShowStr optimizer_termination]) (\<lambda>_.
       then_do (print_errors final_errors_mean final_errors_std final_errors_max) (\<lambda>_.
       ret errors)))) w = (Inr errs, w')"
  shows "\<exists>final stop mean std mx.
      registration_answers L interp (length (heap w)) fixed_image moving (heap w ! t)
        fixed_points moving_points stop mean std mx errs
      \<and> heap w' = heap w @ [final]
      \<and> trace w' = trace w
          @ quietly (registration_body_events interp moving (heap w ! t) stop mean std mx)"
proof -
  from assms obtain r stop w1 mean std median mx w2 w3 where
    reg: "register_images L fixed_image moving t interp w = (Inr (r, stop), w1)"
    and err: "registration_errors L r fixed_points moving_points w1
                = (Inr (mean, std, median, mx, errs), w2)"
    and pr1: "print [ShowStr stop] w2 = (Inr (), w3)"
    and pr2: "print_errors mean std mx w3 = (Inr (), w')"
    by (auto simp: then_do_Inr_iff ret_Inr_iff split: prod.splits)
  from register_images_success [OF reg] obtain final where
    opt: "lib_optimize L (configured_method interp (length (heap w))) fixed_image moving
            (heap w ! t) = Inr (final, stop)"
    and r: "r = length (heap w)" and h1: "heap w1 = heap w @ [final]"
    and t1: "trace w1 = trace w @ quietly [EvRegistrationExecute interp moving (heap w ! t)]"
    by blast
  from registration_errors_success [OF err] have
    stats: "lib_registration_errors L (heap w1 ! r) fixed_points moving_points
              = Inr (mean, std, median, mx, errs)"
    and w2: "w2 = w1\<lparr>trace := trace w1 @ quietly [EvRegistrationErrors]\<rparr>"
    by simp_all
  have fin: "heap w1 ! r = final" by (simp add: h1 r)
  from pr1 pr2 have w': "w' = w2\<lparr>trace := trace w2 @ quietly
        [EvPrint [ShowStr stop],
         EvPrint [Lit ''After registration, errors in millimeters, mean(std): '',
                  Show2f mean, Lit ''('', Show2f std, Lit ''), max: '', Show2f mx]]\<rparr>"
    by (simp add: print_def print_errors_def lib_call_Inr_iff)
  have "registration_answers L interp (length (heap w)) fixed_image moving (heap w ! t)
          fixed_points moving_points stop mean std mx errs"
    unfolding registration_answers_def using opt stats fin by blast
  moreover have "heap w' = heap w @ [final]" by (simp add: w' w2 h1)
  moreover have "trace w' = trace w
          @ quietly (registration_body_events interp moving (heap w ! t) stop mean std mx)"
    by (simp add: w' w2 t1 registration_body_events_def)
  ultimately show ?thesis by blast
qed

lemma timed_registration_success:
  assumes "timeit_r1_n1 L (then_do (register_images L fixed_image moving t interp)
         (\<lambda>(final_transform, optimizer_termination).
       then_do (registration_errors L final_transform fixed_points moving_points)
         (\<lambda>(final_errors_mean, final_errors_std, _, final_errors_max, errors).
       then_do (print [ShowStr optimizer_termination]) (\<lambda>_.
       then_do (print_errors final_errors_mean final_errors_std final_errors_max) (\<lambda>_.
       ret errors))))) w = (Inr errs, w')"
  shows "\<exists>final stop mean std mx.
      registration_answers L interp (length (heap w)) fixed_image moving (heap w ! t)
        fixed_points moving_points stop mean std mx errs
      \<and> heap w' = heap w @ [final]
      \<and> trace w' = trace w
          @ quietly (registration_events L interp moving (heap w ! t) stop mean std mx)"
proof -
  from timeit_r1_n1_success [OF assms] obtain w1 where
    body: "then_do (register_images L fixed_image moving t interp)
         (\<lambda>(final_transform, optimizer_termination).
       then_do (registration_errors L final_transform fixed_points moving_points)
         (\<lambda>(final_errors_mean, final_errors_std, _, final_errors_max, errors).
       then_do (print [ShowStr optimizer_termination]) (\<lambda>_.
       then_do (print_errors final_errors_mean final_errors_std final_errors_max) (\<lambda>_.
       ret errors)))) w = (Inr errs, w1)"
    and w': "w' = w1\<lparr>trace := trace w1
                 @ quietly [EvPrint [ShowTiming (lib_elapsed L (drop (length (trace w)) (trace w1)))]]\<rparr>"
    by blast
  from registration_body_success [OF body] obtain final stop mean std mx where
    ans: "registration_answers L interp (length (heap w)) fixed_image moving (heap w ! t)
        fixed_points moving_points stop mean std mx errs"
    and h1: "heap w1 = heap w @ [final]"
    and t1: "trace w1 = trace w
          @ quietly (registration_body_events interp moving (heap w ! t) stop mean std mx)"
    by blast
  have "heap w' = heap w @ [final]" by (simp add: w' h1)
  moreover have "trace w' = trace w
          @ quietly (registration_events L interp moving (heap w ! t) stop mean std mx)"
    by (simp add: w' t1 registration_events_def)
  ultimately show ?thesis using ans by blast
qed

lemma histogram_cell_success:
  assumes "histogram_cell L errs1 errs2 w = (Inr u, w')"
  shows "w' = w\<lparr>trace := trace w @ quietly (histogram_events errs1 errs2)\<rparr>"
  using assms
  unfolding histogram_cell_def show_display_def
  by (auto simp: then_do_Inr_iff lib_call_Inr_iff histogram_events_def)

text \<open>
  The whole notebook: the values of a run, each the answer of the library to the call
  that the notebook makes, and the calls in their order.
\<close>

lemma notebook_success:
  assumes "notebook L w = (Inr u, w')"
  shows "\<exists>p1 p2 p3 fixed_image moving_image fixed_points moving_points resampled ratio v0
           final1 final2 stop1 mean1 std1 mx1 errs1 stop2 mean2 std2 mx2 errs2.
      loading_answers L p1 p2 p3 fixed_image moving_image fixed_points moving_points
      \<and> resampling_answers L moving_image resampled ratio
      \<and> lib_CenteredTransformInitializer L fixed_image moving_image Euler3DTransform GEOMETRY
          = Inr v0
      \<and> registration_answers L sitkLinear (length (heap w) + 1) fixed_image moving_image v0
          fixed_points moving_points stop1 mean1 std1 mx1 errs1
      \<and> registration_answers L sitkNearestNeighbor (length (heap w) + 2) fixed_image resampled v0
          fixed_points moving_points stop2 mean2 std2 mx2 errs2
      \<and> heap w' = heap w @ [v0, final1, final2]
      \<and> trace w' = trace w @ quietly
          (map EvFirstCell first_cell_steps
           @ loading_events p1 p2 p3 fixed_image moving_image fixed_points
           @ resampling_events moving_image resampled ratio
           @ [EvCenteredTransformInitializer]
           @ registration_events L sitkLinear moving_image v0 stop1 mean1 std1 mx1
           @ registration_events L sitkNearestNeighbor resampled v0 stop2 mean2 std2 mx2
           @ histogram_events errs1 errs2)"
proof -
  from assms obtain w0 fixed_image moving_image fixed_points moving_points w1
    resampled w2 t w3 errs1 w4 errs2 w5 where
    c0: "first_cell L w = (Inr (), w0)"
    and c1: "data_loading_cell L w0 = (Inr (fixed_image, moving_image, fixed_points, moving_points), w1)"
    and c2: "resampling_cell L moving_image w1 = (Inr resampled, w2)"
    and c3: "initial_alignment_cell L fixed_image moving_image w2 = (Inr t, w3)"
    and c4: "original_resolution_cell L fixed_image moving_image t fixed_points moving_points w3
               = (Inr errs1, w4)"
    and c5: "higher_resolution_cell L fixed_image resampled t fixed_points moving_points w4
               = (Inr errs2, w5)"
    and c6: "histogram_cell L errs1 errs2 w5 = (Inr u, w')"
    unfolding notebook_def by (auto simp: then_do_Inr_iff)
  note w0 = first_cell_success [OF c0]
  from data_loading_cell_success [OF c1] obtain p1 p2 p3 where
    a1: "loading_answers L p1 p2 p3 fixed_image moving_image fixed_points moving_points"
    and w1: "w1 = w0\<lparr>trace := trace w0 @
                   quietly (loading_events p1 p2 p3 fixed_image moving_image fixed_points)\<rparr>"
    by blast
  from resampling_cell_success [OF c2] obtain ratio where
    a2: "resampling_answers L moving_image resampled ratio"
    and w2: "w2 = w1\<lparr>trace := trace w1 @ quietly (resampling_events moving_image resampled ratio)\<rparr>"
    by blast
  from initial_alignment_cell_success [OF c3] obtain v0 where
    a3: "lib_CenteredTransformInitializer L fixed_image moving_image Euler3DTransform GEOMETRY
          = Inr v0"
    and t: "t = length (heap w2)"
    and h3: "heap w3 = heap w2 @ [v0]"
    and t3: "trace w3 = trace w2 @ quietly [EvCenteredTransformInitializer]"
    by blast
  from timed_registration_success [OF c4 [unfolded original_resolution_cell_def]]
  obtain final1 stop1 mean1 std1 mx1 where
    a4: "registration_answers L sitkLinear (length (heap w3)) fixed_image moving_image
           (heap w3 ! t) fixed_points moving_points stop1 mean1 std1 mx1 errs1"
    and h4: "heap w4 = heap w3 @ [final1]"
    and t4: "trace w4 = trace w3 @ quietly (registration_events L sitkLinear moving_image
                                              (heap w3 ! t) stop1 mean1 std1 mx1)"
    by blast
  from timed_registration_success [OF c5 [unfolded higher_resolution_cell_def]]
  obtain final2 stop2 mean2 std2 mx2 where
    a5: "registration_answers L sitkNearestNeighbor (length (heap w4)) fixed_image resampled
           (heap w4 ! t) fixed_points moving_points stop2 mean2 std2 mx2 errs2"
    and h5: "heap w5 = heap w4 @ [final2]"
    and t5: "trace w5 = trace w4 @ quietly (registration_events L sitkNearestNeighbor resampled
                                              (heap w4 ! t) stop2 mean2 std2 mx2)"
    by blast
  from histogram_cell_success [OF c6] have
    w6: "w' = w5\<lparr>trace := trace w5 @ quietly (histogram_events errs1 errs2)\<rparr>" .
  have hw2: "heap w2 = heap w" by (simp add: w2 w1 w0)
  have v3: "heap w3 ! t = v0" by (simp add: h3 t)
  have v4: "heap w4 ! t = v0" by (simp add: h4 h3 t nth_append)
  have l3: "length (heap w3) = length (heap w) + 1" by (simp add: h3 hw2)
  have l4: "length (heap w4) = length (heap w) + 2" by (simp add: h4 h3 hw2)
  have hp: "heap w' = heap w @ [v0, final1, final2]"
    by (simp add: w6 h5 h4 h3 hw2)
  have tr: "trace w' = trace w @ quietly
          (map EvFirstCell first_cell_steps
           @ loading_events p1 p2 p3 fixed_image moving_image fixed_points
           @ resampling_events moving_image resampled ratio
           @ [EvCenteredTransformInitializer]
           @ registration_events L sitkLinear moving_image v0 stop1 mean1 std1 mx1
           @ registration_events L sitkNearestNeighbor resampled v0 stop2 mean2 std2 mx2
           @ histogram_events errs1 errs2)"
    by (simp add: w6 t5 v4 t4 v3 t3 w2 w1 w0)
  from a1 a2 a3 a4 [unfolded v3 l3] a5 [unfolded v4 l4] hp tr show ?thesis
    by (intro exI conjI) assumption+
qed

section \<open>The run on the small library\<close>

lemma demo_resampled_size:
  "resampled_image_size [5 / 4, 5 / 4, 4] [2, 2, 2] [1, 1, 1] = Inr [2, 2, 8]"
  by (simp add: scaled_size_5_4_by_2 scaled_size_4_by_2 py_int_def)

lemma demo_first_cell:
  "first_cell demo_library \<lparr>heap = h, trace = tr\<rparr> =
     (Inr (), \<lparr>heap = h, trace = tr @ quietly (map EvFirstCell first_cell_steps)\<rparr>)"
  by (simp add: first_cell_def first_cell_steps_def then_do_def run_step_def lib_call_def
      outcome_def ret_def demo_library_def)

lemma demo_data_loading:
  "data_loading_cell demo_library \<lparr>heap = h, trace = tr\<rparr> =
     (Inr (demo_image sitkFloat32, demo_image sitkFloat32, [[0, 0, 0]], [[0, 0, 0]]),
      \<lparr>heap = h, trace = tr @ quietly (loading_events ''cache/training_001_ct.mha''
         ''cache/training_001_mr_T1.mha'' ''cache/ct_T1.standard''
         (demo_image sitkFloat32) (demo_image sitkFloat32) [[0, 0, 0]])\<rparr>)"
  by (simp add: data_loading_cell_def then_do_def fdata_def ReadImage_def
      load_RIRE_ground_truth_def absolute_orientation_m_def generate_random_pointset_def
      SetMatrix_def SetTranslation_def checked_def
      TransformPoint_def show_display_def py_index_def ret_def lib_call_def outcome_def
      demo_library_def loading_events_def demo_image_def)

lemma demo_resampling:
  "resampling_cell demo_library (demo_image sitkFloat32) \<lparr>heap = h, trace = tr\<rparr> =
     (Inr demo_resampled,
      \<lparr>heap = h, trace = tr @ quietly (resampling_events (demo_image sitkFloat32) demo_resampled 4)\<rparr>)"
  by (simp add: resampling_cell_def Let_def GetDimension_def demo_image_def numeral_3_eq_3
      demo_resampled_size [simplified] lift_def then_do_def ResampleExecute_def lib_call_def
      outcome_def ret_def print_def demo_library_def Image_def SetSpacing_def SetOrigin_def
      SetDirection_def checked_def memory_ratio_def blank_image_def
      ResampleImageFilter_def SetReferenceImage_def resampling_events_def demo_resampled_def)

lemma demo_initial_alignment:
  "initial_alignment_cell demo_library fixed_image moving_image \<lparr>heap = [], trace = tr\<rparr> =
     (Inr 0, \<lparr>heap = [Euler3DTransform], trace = tr @ quietly [EvCenteredTransformInitializer]\<rparr>)"
  by (simp add: initial_alignment_cell_def CenteredTransformInitializer_def then_do_def
      lib_call_def outcome_def new_transform_def demo_library_def)

lemma demo_original_resolution:
  "original_resolution_cell demo_library fixed_image moving_image 0 ps qs
       \<lparr>heap = [Euler3DTransform], trace = tr\<rparr> =
     (Inr [0], \<lparr>heap = [Euler3DTransform, demo_final],
                trace = tr @ quietly (registration_events demo_library sitkLinear moving_image
                                        Euler3DTransform ''converged'' 0 0 0)\<rparr>)"
  by (simp add: original_resolution_cell_def timeit_r1_n1_def get_trace_def
      register_images_run then_do_def
      registration_errors_def get_transform_def lib_call_def outcome_def print_errors_def
      print_def ret_def demo_library_def demo_final_def registration_events_def
      registration_body_events_def)

lemma demo_higher_resolution:
  "higher_resolution_cell demo_library fixed_image resampled 0 ps qs
       \<lparr>heap = [Euler3DTransform, demo_final], trace = tr\<rparr> =
     (Inr [0], \<lparr>heap = [Euler3DTransform, demo_final, demo_final],
                trace = tr @ quietly (registration_events demo_library sitkNearestNeighbor
                                        resampled Euler3DTransform ''converged'' 0 0 0)\<rparr>)"
  by (simp add: higher_resolution_cell_def timeit_r1_n1_def get_trace_def
      register_images_run then_do_def
      registration_errors_def get_transform_def lib_call_def outcome_def print_errors_def
      print_def ret_def demo_library_def demo_final_def registration_events_def
      registration_body_events_def)

lemma demo_histogram:
  "histogram_cell demo_library errs1 errs2 \<lparr>heap = h, trace = tr\<rparr> =
     (Inr (), \<lparr>heap = h, trace = tr @ quietly (histogram_events errs1 errs2)\<rparr>)"
  by (simp add: histogram_cell_def show_display_def then_do_def lib_call_def outcome_def
      demo_library_def histogram_events_def)

lemma demo_notebook:
  "notebook demo_library empty_world =
     (Inr (), \<lparr>heap = [Euler3DTransform, demo_final, demo_final], trace = quietly demo_events\<rparr>)"
  by (simp add: notebook_def then_do_def empty_world_def demo_first_cell demo_data_loading
      demo_resampling demo_initial_alignment demo_original_resolution demo_higher_resolution
      demo_histogram demo_events_def)

lemma filter_file_access_TransformPoint [simp]:
  "filter file_access (map EvTransformPoint ps) = []"
  by (induction ps) simp_all

lemma filter_console_output_TransformPoint [simp]:
  "filter console_output (map EvTransformPoint ps) = []"
  by (induction ps) simp_all

lemma filter_on_screen_TransformPoint [simp]:
  "filter on_screen (map EvTransformPoint ps) = []"
  by (induction ps) simp_all

lemma filter_loads_code_TransformPoint [simp]:
  "filter loads_code (map EvTransformPoint ps) = []"
  by (induction ps) simp_all

section \<open>The resampled image and the steps of the demonstration\<close>

lemma then_do_Inl_iff:
  "then_do m f w = (Inl e, w'') \<longleftrightarrow>
     m w = (Inl e, w'') \<or> (\<exists>x w'. m w = (Inr x, w') \<and> f x w' = (Inl e, w''))"
  by (auto simp: then_do_def split: prod.splits sum.splits)

lemma lib_call_Inl_iff:
  "lib_call ev r w = (Inl e, w') \<longleftrightarrow> r = Inl e \<and> w' = w\<lparr>trace := trace w @ [(ev, Some e)]\<rparr>"
  by (cases r) (auto simp: lib_call_def outcome_def)

lemma checked_Inl_iff:
  "checked L c x w = (Inl e, w') \<longleftrightarrow>
     lib_raises L c = Some e \<and> w' = w\<lparr>trace := trace w @ [(EvToolkit (method_name c), Some e)]\<rparr>"
  by (cases "lib_raises L c") (auto simp: checked_def lib_call_def outcome_def)

lemma resampling_cell_failure:
  assumes "resampling_cell L moving_image w = (Inl e, w')"
  shows "e = OverflowError \<or> e = ValueError \<or> (\<exists>c. lib_raises L c = Some e)
      \<or> (\<exists>f. lib_resample L f moving_image = Inl e) \<or> (\<exists>a b. lib_memory_ratio L a b = Inl e)"
  using assms
  unfolding resampling_cell_def Let_def ResampleExecute_def print_def Image_def SetSpacing_def
    SetOrigin_def SetDirection_def memory_ratio_def
  by (auto simp: then_do_Inl_iff lib_call_Inl_iff checked_Inl_iff lift_def ret_def
      dest: resampled_image_size_unit_raises)

text \<open>
  C4: the image that the resampling cell produces has spacing 1.0 in every dimension,
  which is finer than the original wherever the original spacing exceeds 1.0, and the
  origin, the direction and the pixel type of the moving image. The cell produces no
  image only when its size computation raises or the library raises: on a call on the
  new image, in the resample filter or in the numpy expression of the memory ratio.
\<close>

theorem resampled_image_geometry:
  "(case fst (resampling_cell L moving_image w) of
      Inr resampled \<Rightarrow>
        img_spacing resampled = replicate (GetDimension moving_image) 1
        \<and> img_origin resampled = img_origin moving_image
        \<and> img_direction resampled = img_direction moving_image
        \<and> img_pixel_id resampled = img_pixel_id moving_image
        \<and> (\<forall>i < GetDimension moving_image.
              1 < img_spacing moving_image ! i \<longrightarrow>
              img_spacing resampled ! i < img_spacing moving_image ! i)
    | Inl e \<Rightarrow>
        e = OverflowError \<or> e = ValueError \<or> (\<exists>c. lib_raises L c = Some e)
        \<or> (\<exists>f. lib_resample L f moving_image = Inl e)
        \<or> (\<exists>a b. lib_memory_ratio L a b = Inl e))"
proof (cases "fst (resampling_cell L moving_image w)")
  case (Inr resampled)
  then have "resampling_cell L moving_image w = (Inr resampled, snd (resampling_cell L moving_image w))"
    by (metis prod.collapse)
  from resampling_cell_success [OF this] Inr show ?thesis by auto
next
  case (Inl e)
  then have "resampling_cell L moving_image w = (Inl e, snd (resampling_cell L moving_image w))"
    by (metis prod.collapse)
  from resampling_cell_failure [OF this] Inl show ?thesis by simp
qed

theorem resampled_image_geometry_witness:
  "fst (resampling_cell demo_library (demo_image sitkFloat32) empty_world) = Inr demo_resampled
   \<and> (1::nat) < GetDimension (demo_image sitkFloat32)
   \<and> 1 < img_spacing (demo_image sitkFloat32) ! 1
   \<and> img_spacing demo_resampled ! 1 < img_spacing (demo_image sitkFloat32) ! 1
   \<and> img_pixel_id demo_resampled = img_pixel_id (demo_image sitkFloat32)"
proof -
  have run: "fst (resampling_cell demo_library (demo_image sitkFloat32) empty_world) = Inr demo_resampled"
    by (simp add: empty_world_def demo_resampling)
  from resampled_image_geometry [of demo_library "demo_image sitkFloat32" empty_world]
  have "img_pixel_id demo_resampled = img_pixel_id (demo_image sitkFloat32)"
    and "\<forall>i < GetDimension (demo_image sitkFloat32).
              1 < img_spacing (demo_image sitkFloat32) ! i \<longrightarrow>
              img_spacing demo_resampled ! i < img_spacing (demo_image sitkFloat32) ! i"
    unfolding run by simp_all
  then show ?thesis
    using run by (simp add: GetDimension_def demo_image_def demo_resampled_def)
qed

text \<open>
  C3: a run of the demonstration in which nothing raises, after the imports of the first
  cell, loads the two images and the fiducial correspondences, resamples the moving
  image to the isotropic grid, computes the initial alignment, registers the original
  moving image with the linear interpolator and the resampled one with the
  nearest-neighbor interpolator, each with one registration call from the same initial
  alignment followed by the error statistics of the helper on the transform that the
  registration returned, and plots the histograms of the two lists of errors of the
  helper, in this order.
\<close>

theorem notebook_steps_in_order:
  assumes "notebook L w = (Inr u, w')"
  shows "\<exists>p1 p2 p3 fixed_image moving_image fixed_points moving_points resampled ratio v0
           stop1 mean1 std1 mx1 errs1 stop2 mean2 std2 mx2 errs2.
      loading_answers L p1 p2 p3 fixed_image moving_image fixed_points moving_points
      \<and> resampling_answers L moving_image resampled ratio
      \<and> lib_CenteredTransformInitializer L fixed_image moving_image Euler3DTransform GEOMETRY
          = Inr v0
      \<and> registration_answers L sitkLinear (length (heap w) + 1) fixed_image moving_image v0
          fixed_points moving_points stop1 mean1 std1 mx1 errs1
      \<and> registration_answers L sitkNearestNeighbor (length (heap w) + 2) fixed_image resampled v0
          fixed_points moving_points stop2 mean2 std2 mx2 errs2
      \<and> map fst (calls_made w w') =
          map EvFirstCell first_cell_steps
          @ loading_events p1 p2 p3 fixed_image moving_image fixed_points
          @ resampling_events moving_image resampled ratio
          @ [EvCenteredTransformInitializer]
          @ registration_events L sitkLinear moving_image v0 stop1 mean1 std1 mx1
          @ registration_events L sitkNearestNeighbor resampled v0 stop2 mean2 std2 mx2
          @ histogram_events errs1 errs2"
proof -
  from notebook_success [OF assms] obtain p1 p2 p3 fixed_image moving_image fixed_points
    moving_points resampled ratio v0 stop1 mean1 std1 mx1 errs1 stop2 mean2 std2 mx2 errs2 where
    a: "loading_answers L p1 p2 p3 fixed_image moving_image fixed_points moving_points"
      "resampling_answers L moving_image resampled ratio"
      "lib_CenteredTransformInitializer L fixed_image moving_image Euler3DTransform GEOMETRY
          = Inr v0"
      "registration_answers L sitkLinear (length (heap w) + 1) fixed_image moving_image v0
          fixed_points moving_points stop1 mean1 std1 mx1 errs1"
      "registration_answers L sitkNearestNeighbor (length (heap w) + 2) fixed_image resampled v0
          fixed_points moving_points stop2 mean2 std2 mx2 errs2"
    and tr: "trace w' = trace w @ quietly
          (map EvFirstCell first_cell_steps
           @ loading_events p1 p2 p3 fixed_image moving_image fixed_points
           @ resampling_events moving_image resampled ratio
           @ [EvCenteredTransformInitializer]
           @ registration_events L sitkLinear moving_image v0 stop1 mean1 std1 mx1
           @ registration_events L sitkNearestNeighbor resampled v0 stop2 mean2 std2 mx2
           @ histogram_events errs1 errs2)"
    by blast
  have cm: "map fst (calls_made w w') =
          map EvFirstCell first_cell_steps
          @ loading_events p1 p2 p3 fixed_image moving_image fixed_points
          @ resampling_events moving_image resampled ratio
          @ [EvCenteredTransformInitializer]
          @ registration_events L sitkLinear moving_image v0 stop1 mean1 std1 mx1
          @ registration_events L sitkNearestNeighbor resampled v0 stop2 mean2 std2 mx2
          @ histogram_events errs1 errs2"
    by (simp add: calls_made_def tr)
  from a cm show ?thesis
    by (intro exI conjI) assumption+
qed

theorem notebook_steps_in_order_witness:
  "notebook demo_library empty_world
     = (Inr (), \<lparr>heap = [Euler3DTransform, demo_final, demo_final], trace = quietly demo_events\<rparr>)
   \<and> map fst (calls_made empty_world
        \<lparr>heap = [Euler3DTransform, demo_final, demo_final], trace = quietly demo_events\<rparr>)
      = demo_events"
proof -
  note notebook_steps_in_order [OF demo_notebook]
  then have "map fst (calls_made empty_world
        \<lparr>heap = [Euler3DTransform, demo_final, demo_final], trace = quietly demo_events\<rparr>)
      = demo_events"
    by (simp add: calls_made_def empty_world_def)
  with demo_notebook show ?thesis by (rule conjI)
qed

text \<open>
  C7, as stated: the console output of the demonstration is formatted error statistics
  and optimizer stop conditions only. It fails on the small library: the resampling
  cell prints the size and spacing of the original image.
\<close>

theorem console_output_beyond_errors_and_stop_conditions:
  "EvPrint [Lit ''Original image size and spacing: '', ShowInts [2, 2, 2], Lit '' '',
            ShowReals [5 / 4, 5 / 4, 4]]
     \<in> set (map fst (calls_made empty_world (snd (notebook demo_library empty_world))))
   \<and> \<not> spec_console_line [Lit ''Original image size and spacing: '', ShowInts [2, 2, 2],
                            Lit '' '', ShowReals [5 / 4, 5 / 4, 4]]
   \<and> \<not> list_all spec_external_effect
         (map fst (calls_made empty_world (snd (notebook demo_library empty_world))))"
  unfolding demo_notebook
  by (simp add: calls_made_def empty_world_def demo_events_def resampling_events_def
      demo_image_def spec_console_line_def spec_external_effect_def)

text \<open>
  C7, amended: a run of the demonstration in which nothing raises loads the modules and
  the script of its first cell; it fetches the two image files and the correspondence
  file from the data cache and reads each fetched path once, and its code reads or writes
  no other data file; it prints the sizes and spacings of the original and the resampled
  image and the memory ratio, then for each registration the optimizer's stop condition,
  the formatted error statistics of the helper and the timing line of \<open>%%timeit\<close>; it
  shows the image viewer and the histogram plot.
\<close>

theorem notebook_external_effects:
  assumes "notebook L w = (Inr u, w')"
  shows "\<exists>p1 p2 p3 fixed_image moving_image fixed_points moving_points resampled ratio v0
           stop1 mean1 std1 mx1 errs1 stop2 mean2 std2 mx2 errs2.
      loading_answers L p1 p2 p3 fixed_image moving_image fixed_points moving_points
      \<and> resampling_answers L moving_image resampled ratio
      \<and> lib_CenteredTransformInitializer L fixed_image moving_image Euler3DTransform GEOMETRY
          = Inr v0
      \<and> registration_answers L sitkLinear (length (heap w) + 1) fixed_image moving_image v0
          fixed_points moving_points stop1 mean1 std1 mx1 errs1
      \<and> registration_answers L sitkNearestNeighbor (length (heap w) + 2) fixed_image resampled v0
          fixed_points moving_points stop2 mean2 std2 mx2 errs2
      \<and> filter loads_code (map fst (calls_made w w')) =
          [EvFirstCell (Import ''SimpleITK''), EvFirstCell (Import ''numpy''),
           EvFirstCell (Import ''matplotlib.pyplot''),
           EvFirstCell (RunScript ''update_path_to_download_script''),
           EvFirstCell (Import ''downloaddata''), EvFirstCell (Import ''registration_utilities''),
           EvFirstCell (Import ''ipywidgets'')]
      \<and> filter file_access (map fst (calls_made w w')) =
          [EvFetchData ''training_001_ct.mha'', EvReadImage p1 sitkFloat32,
           EvFetchData ''training_001_mr_T1.mha'', EvReadImage p2 sitkFloat32,
           EvFetchData ''ct_T1.standard'', EvLoadGroundTruth p3]
      \<and> filter console_output (map fst (calls_made w w')) =
          [EvPrint [Lit ''Original image size and spacing: '', ShowInts (img_size moving_image),
                    Lit '' '', ShowReals (img_spacing moving_image)],
           EvPrint [Lit ''Resampled image size and spacing: '', ShowInts (img_size resampled),
                    Lit '' '', ShowReals (img_spacing resampled)],
           EvPrint [Lit ''Memory ratio: 1 : '', ShowReal ratio],
           EvPrint [ShowStr stop1],
           EvPrint [Lit ''After registration, errors in millimeters, mean(std): '',
                    Show2f mean1, Lit ''('', Show2f std1, Lit ''), max: '', Show2f mx1],
           EvPrint [ShowTiming (lib_elapsed L (quietly
                      (registration_body_events sitkLinear moving_image v0
                         stop1 mean1 std1 mx1)))],
           EvPrint [ShowStr stop2],
           EvPrint [Lit ''After registration, errors in millimeters, mean(std): '',
                    Show2f mean2, Lit ''('', Show2f std2, Lit ''), max: '', Show2f mx2],
           EvPrint [ShowTiming (lib_elapsed L (quietly
                      (registration_body_events sitkNearestNeighbor resampled v0
                         stop2 mean2 std2 mx2)))]]
      \<and> filter on_screen (map fst (calls_made w w')) =
          EvDisplay (Interact (0, img_size fixed_image ! 2 - 1) (0, img_size moving_image ! 2 - 1)
                       fixed_image moving_image)
          # histogram_events errs1 errs2"
proof -
  from notebook_success [OF assms] obtain p1 p2 p3 fixed_image moving_image fixed_points
    moving_points resampled ratio v0 stop1 mean1 std1 mx1 errs1 stop2 mean2 std2 mx2 errs2 where
    a: "loading_answers L p1 p2 p3 fixed_image moving_image fixed_points moving_points"
      "resampling_answers L moving_image resampled ratio"
      "lib_CenteredTransformInitializer L fixed_image moving_image Euler3DTransform GEOMETRY
          = Inr v0"
      "registration_answers L sitkLinear (length (heap w) + 1) fixed_image moving_image v0
          fixed_points moving_points stop1 mean1 std1 mx1 errs1"
      "registration_answers L sitkNearestNeighbor (length (heap w) + 2) fixed_image resampled v0
          fixed_points moving_points stop2 mean2 std2 mx2 errs2"
    and tr: "trace w' = trace w @ quietly
          (map EvFirstCell first_cell_steps
           @ loading_events p1 p2 p3 fixed_image moving_image fixed_points
           @ resampling_events moving_image resampled ratio
           @ [EvCenteredTransformInitializer]
           @ registration_events L sitkLinear moving_image v0 stop1 mean1 std1 mx1
           @ registration_events L sitkNearestNeighbor resampled v0 stop2 mean2 std2 mx2
           @ histogram_events errs1 errs2)"
    by blast
  have cm: "map fst (calls_made w w') =
          map EvFirstCell first_cell_steps
          @ loading_events p1 p2 p3 fixed_image moving_image fixed_points
          @ resampling_events moving_image resampled ratio
          @ [EvCenteredTransformInitializer]
          @ registration_events L sitkLinear moving_image v0 stop1 mean1 std1 mx1
          @ registration_events L sitkNearestNeighbor resampled v0 stop2 mean2 std2 mx2
          @ histogram_events errs1 errs2"
    by (simp add: calls_made_def tr)
  have code: "filter loads_code (map fst (calls_made w w')) =
          [EvFirstCell (Import ''SimpleITK''), EvFirstCell (Import ''numpy''),
           EvFirstCell (Import ''matplotlib.pyplot''),
           EvFirstCell (RunScript ''update_path_to_download_script''),
           EvFirstCell (Import ''downloaddata''), EvFirstCell (Import ''registration_utilities''),
           EvFirstCell (Import ''ipywidgets'')]"
    unfolding cm
    by (simp add: first_cell_steps_def loading_events_def resampling_events_def
        registration_events_def registration_body_events_def histogram_events_def)
  have files: "filter file_access (map fst (calls_made w w')) =
          [EvFetchData ''training_001_ct.mha'', EvReadImage p1 sitkFloat32,
           EvFetchData ''training_001_mr_T1.mha'', EvReadImage p2 sitkFloat32,
           EvFetchData ''ct_T1.standard'', EvLoadGroundTruth p3]"
    unfolding cm
    by (simp add: first_cell_steps_def loading_events_def resampling_events_def
        registration_events_def registration_body_events_def histogram_events_def)
  have console: "filter console_output (map fst (calls_made w w')) =
          [EvPrint [Lit ''Original image size and spacing: '', ShowInts (img_size moving_image),
                    Lit '' '', ShowReals (img_spacing moving_image)],
           EvPrint [Lit ''Resampled image size and spacing: '', ShowInts (img_size resampled),
                    Lit '' '', ShowReals (img_spacing resampled)],
           EvPrint [Lit ''Memory ratio: 1 : '', ShowReal ratio],
           EvPrint [ShowStr stop1],
           EvPrint [Lit ''After registration, errors in millimeters, mean(std): '',
                    Show2f mean1, Lit ''('', Show2f std1, Lit ''), max: '', Show2f mx1],
           EvPrint [ShowTiming (lib_elapsed L (quietly
                      (registration_body_events sitkLinear moving_image v0
                         stop1 mean1 std1 mx1)))],
           EvPrint [ShowStr stop2],
           EvPrint [Lit ''After registration, errors in millimeters, mean(std): '',
                    Show2f mean2, Lit ''('', Show2f std2, Lit ''), max: '', Show2f mx2],
           EvPrint [ShowTiming (lib_elapsed L (quietly
                      (registration_body_events sitkNearestNeighbor resampled v0
                         stop2 mean2 std2 mx2)))]]"
    unfolding cm registration_events_def
    by (simp add: first_cell_steps_def loading_events_def resampling_events_def
        histogram_events_def)
       (simp add: registration_body_events_def)
  have screen: "filter on_screen (map fst (calls_made w w')) =
          EvDisplay (Interact (0, img_size fixed_image ! 2 - 1) (0, img_size moving_image ! 2 - 1)
                       fixed_image moving_image)
          # histogram_events errs1 errs2"
    unfolding cm
    by (simp add: first_cell_steps_def loading_events_def resampling_events_def
        registration_events_def registration_body_events_def histogram_events_def)
  from a code files console screen show ?thesis
    by (intro exI conjI) assumption+
qed

theorem notebook_external_effects_witness:
  "notebook demo_library empty_world
     = (Inr (), \<lparr>heap = [Euler3DTransform, demo_final, demo_final], trace = quietly demo_events\<rparr>)
   \<and> filter file_access (map fst (calls_made empty_world
        \<lparr>heap = [Euler3DTransform, demo_final, demo_final], trace = quietly demo_events\<rparr>))
      = [EvFetchData ''training_001_ct.mha'', EvReadImage ''cache/training_001_ct.mha'' sitkFloat32,
         EvFetchData ''training_001_mr_T1.mha'', EvReadImage ''cache/training_001_mr_T1.mha'' sitkFloat32,
         EvFetchData ''ct_T1.standard'', EvLoadGroundTruth ''cache/ct_T1.standard'']"
proof -
  note notebook_external_effects [OF demo_notebook]
  then have "filter file_access (map fst (calls_made empty_world
        \<lparr>heap = [Euler3DTransform, demo_final, demo_final], trace = quietly demo_events\<rparr>))
      = [EvFetchData ''training_001_ct.mha'', EvReadImage ''cache/training_001_ct.mha'' sitkFloat32,
         EvFetchData ''training_001_mr_T1.mha'', EvReadImage ''cache/training_001_mr_T1.mha'' sitkFloat32,
         EvFetchData ''ct_T1.standard'', EvLoadGroundTruth ''cache/ct_T1.standard'']"
    by (auto simp: loading_answers_def demo_library_def)
  with demo_notebook show ?thesis by (rule conjI)
qed

end
